theory Spec2Isabelle
  imports Main "HOL-Library.Word"
begin

section \<open>Strings and bytes\<close>

text \<open>
  The print service (\<^verbatim>\<open>src/index.js\<close>) is one Express handler, \<^verbatim>\<open>POST /print\<close>,
  behind the check of the API key. Its request fields are JSON strings, as the comment
  above the handler lists them; they are modelled as \<^typ>\<open>string\<close> (characters of 8
  bits, so the code units U+0000 to U+00FF of a JavaScript string), an absent field as
  \<^term>\<open>None\<close>. A \<^verbatim>\<open>Buffer\<close> is a list of bytes. The line written by
  \<^verbatim>\<open>console.error\<close> is left out.
\<close>

type_synonym byte = "8 word"

text \<open>
  JavaScript truthiness of an optional string field: \<^verbatim>\<open>undefined\<close> and the empty
  string are falsy, every other string is truthy. \<open>present\<close> returns the string of a
  truthy field.
\<close>

fun present :: "string option \<Rightarrow> string option" where
  "present None = None"
| "present (Some []) = None"
| "present (Some (c # cs)) = Some (c # cs)"

text \<open>
  The characters that \<^verbatim>\<open>.\<close> of a JavaScript regular expression does not match
  (line feed and carriage return; U+2028 and U+2029 lie outside the 8-bit characters).
\<close>

definition line_terminator :: "char \<Rightarrow> bool" where
  "line_terminator c = (c = CHR 0x0A \<or> c = CHR 0x0D)"

definition dot_star :: "string \<Rightarrow> bool" where
  "dot_star s = list_all (\<lambda>c. \<not> line_terminator c) s"

fun strip_prefix :: "string \<Rightarrow> string \<Rightarrow> string option" where
  "strip_prefix [] s = Some s"
| "strip_prefix (p # ps) [] = None"
| "strip_prefix (p # ps) (c # cs) = (if p = c then strip_prefix ps cs else None)"

text \<open>
  \<^verbatim>\<open>fileBase64.match(/base64,(.*)$/)\<close> (lines 82 and 172): the matcher tries the start
  positions from left to right; at a position where \<^verbatim>\<open>base64,\<close> stands, the group
  \<^verbatim>\<open>(.*)\<close> has to reach the end of the input (\<^verbatim>\<open>$\<close> without the \<^verbatim>\<open>m\<close> flag), which
  it does exactly when no line terminator follows. The result is the first group.
\<close>

fun match_base64 :: "string \<Rightarrow> string option" where
  "match_base64 [] = None"
| "match_base64 (c # cs) =
     (case strip_prefix ''base64,'' (c # cs) of
        Some rest \<Rightarrow> if dot_star rest then Some rest else match_base64 cs
      | None \<Rightarrow> match_base64 cs)"

text \<open>
  The text after the last occurrence of \<^verbatim>\<open>;base64,\<close>: where the greedy \<^verbatim>\<open>.*\<close> of
  \<^verbatim>\<open>/^data:.*;base64,(.*)$/\<close> stops when it backtracks from the end of the input.
\<close>

fun after_last_marker :: "string \<Rightarrow> string option" where
  "after_last_marker [] = None"
| "after_last_marker (c # cs) =
     (case after_last_marker cs of
        Some rest \<Rightarrow> Some rest
      | None \<Rightarrow> strip_prefix '';base64,'' (c # cs))"

text \<open>
  \<^verbatim>\<open>raw.match(/^data:.*;base64,(.*)$/)\<close> (line 141): anchored at both ends, so the
  whole input is free of line terminators; the result is the first group.
\<close>

definition match_data_base64 :: "string \<Rightarrow> string option" where
  "match_data_base64 s =
     (case strip_prefix ''data:'' s of
        None \<Rightarrow> None
      | Some t \<Rightarrow> if dot_star t then after_last_marker t else None)"

section \<open>The runtime's base64 decoder\<close>

text \<open>
  \<^verbatim>\<open>Buffer.from(text, "base64")\<close> of Node.js never throws on a string: it reads the
  standard and the URL-safe alphabet, skips every other character, stops at the first
  \<^verbatim>\<open>=\<close>, and drops the bits of an incomplete last group.
\<close>

definition unbase64 :: "char \<Rightarrow> nat option" where
  "unbase64 c =
     (let n = (of_char c :: nat) in
      if 65 \<le> n \<and> n \<le> 90 then Some (n - 65)
      else if 97 \<le> n \<and> n \<le> 122 then Some (n - 71)
      else if 48 \<le> n \<and> n \<le> 57 then Some (n + 4)
      else if n = 43 \<or> n = 45 then Some 62
      else if n = 47 \<or> n = 95 then Some 63
      else None)"

fun base64_sextets :: "string \<Rightarrow> nat list" where
  "base64_sextets [] = []"
| "base64_sextets (c # cs) =
     (case unbase64 c of
        Some v \<Rightarrow> v # base64_sextets cs
      | None \<Rightarrow> if (of_char c :: nat) = 61 then [] else base64_sextets cs)"

fun pack_sextets :: "nat list \<Rightarrow> byte list" where
  "pack_sextets (a # b # c # d # r) =
     of_nat (a * 4 + b div 16) # of_nat ((b mod 16) * 16 + c div 4)
       # of_nat ((c mod 4) * 64 + d) # pack_sextets r"
| "pack_sextets [a, b, c] = [of_nat (a * 4 + b div 16), of_nat ((b mod 16) * 16 + c div 4)]"
| "pack_sextets [a, b] = [of_nat (a * 4 + b div 16)]"
| "pack_sextets r = []"

definition buffer_from_base64 :: "string \<Rightarrow> byte list" where
  "buffer_from_base64 s = pack_sextets (base64_sextets s)"

text \<open>
  \<^verbatim>\<open>client.write(raw)\<close> with a string writes its UTF-8 encoding: one byte for a code
  unit below 128, two bytes for the others of the 8-bit range.
\<close>

definition utf8_of_char :: "char \<Rightarrow> byte list" where
  "utf8_of_char c =
     (let n = (of_char c :: nat) in
      if n < 128 then [of_nat n] else [of_nat (192 + n div 64), of_nat (128 + n mod 64)])"

definition utf8_encode :: "string \<Rightarrow> byte list" where
  "utf8_encode s = concat (map utf8_of_char s)"

text \<open>
  Base64 encoding as RFC 4648 defines it (\<^verbatim>\<open>buffer.toString("base64")\<close>). The service
  never encodes; the round-trip property of the specification is stated against this
  definition.
\<close>

definition base64_code :: "nat \<Rightarrow> nat" where
  "base64_code n =
     (if n < 26 then n + 65
      else if n < 52 then n + 71
      else if n < 62 then n - 4
      else if n = 62 then 43 else 47)"

definition base64_char :: "nat \<Rightarrow> char" where
  "base64_char n = char_of (base64_code n)"

fun base64_encode :: "byte list \<Rightarrow> string" where
  "base64_encode [] = []"
| "base64_encode [a] =
     [base64_char (unat a div 4), base64_char ((unat a mod 4) * 16), CHR ''='', CHR ''='']"
| "base64_encode [a, b] =
     [base64_char (unat a div 4), base64_char ((unat a mod 4) * 16 + unat b div 16),
      base64_char ((unat b mod 16) * 4), CHR ''='']"
| "base64_encode (a # b # c # r) =
     base64_char (unat a div 4) # base64_char ((unat a mod 4) * 16 + unat b div 16)
       # base64_char ((unat b mod 16) * 4 + unat c div 64) # base64_char (unat c mod 64)
       # base64_encode r"

text \<open>
  A base64 string in the sense of RFC 4648: groups of four characters of the standard
  alphabet, the last group possibly padded with one or two \<^verbatim>\<open>=\<close>, the unused bits
  before the padding being zero.
\<close>

definition std_sextet :: "char \<Rightarrow> nat option" where
  "std_sextet c = (if (of_char c :: nat) = 45 \<or> (of_char c :: nat) = 95 then None else unbase64 c)"

fun is_base64 :: "string \<Rightarrow> bool" where
  "is_base64 [] = True"
| "is_base64 (a # b # c # d # r) =
     (case (std_sextet a, std_sextet b) of
        (Some va, Some vb) \<Rightarrow>
          (case (std_sextet c, std_sextet d) of
             (Some vc, Some vd) \<Rightarrow> is_base64 r
           | (Some vc, None) \<Rightarrow> d = CHR ''='' \<and> vc mod 4 = 0 \<and> r = []
           | (None, Some vd) \<Rightarrow> False
           | (None, None) \<Rightarrow> c = CHR ''='' \<and> d = CHR ''='' \<and> vb mod 16 = 0 \<and> r = [])
      | _ \<Rightarrow> False)"
| "is_base64 r = False"

section \<open>The request, the response and the environment\<close>

text \<open>The destructured fields of \<^verbatim>\<open>req.body\<close> (lines 61 to 68).\<close>

record job =
  mode :: "string option"
  printerName :: "string option"
  printerIp :: "string option"
  fileUrl :: "string option"
  fileBase64 :: "string option"
  raw :: "string option"

text \<open>What \<^verbatim>\<open>res.status(..).json(..)\<close> sends: the status and the keys of the body.\<close>

record response =
  status :: nat
  success :: bool
  resp_mode :: "string option"
  message :: "string option"
  error :: "string option"

definition json_error :: "nat \<Rightarrow> string \<Rightarrow> response" where
  "json_error st msg =
     \<lparr>status = st, success = False, resp_mode = None, message = None, error = Some msg\<rparr>"

definition json_success :: "string \<Rightarrow> string \<Rightarrow> response" where
  "json_success m msg =
     \<lparr>status = 200, success = True, resp_mode = Some m, message = Some msg, error = None\<rparr>"

text \<open>
  Every input and output operation of the handler, in the order in which it happens.
\<close>

datatype effect =
    Fetch string
  | Mkdir string
  | WriteFile string "byte list"
  | Print string "string option"
  | Unlink string
  | SockConnect nat string
  | SockWrite "byte list"
  | SockEnd
  | IppExecute string "byte list"

text \<open>The file system (path to content) and the log of the effects so far.\<close>

record world =
  files :: "string \<Rightarrow> byte list option"
  trace :: "effect list"

definition emit :: "effect \<Rightarrow> world \<Rightarrow> world" where
  "emit ev w = w\<lparr>trace := trace w @ [ev]\<rparr>"

text \<open>\<^verbatim>\<open>fs.mkdirSync(dir, { recursive: true })\<close>: no error when the directory exists.\<close>

definition mkdirSync :: "string \<Rightarrow> world \<Rightarrow> world" where
  "mkdirSync dir w = emit (Mkdir dir) w"

definition writeFileSync :: "string \<Rightarrow> byte list \<Rightarrow> world \<Rightarrow> world" where
  "writeFileSync p buffer w = emit (WriteFile p buffer) (w\<lparr>files := (files w)(p \<mapsto> buffer)\<rparr>)"

text \<open>\<^verbatim>\<open>fs.unlinkSync(p)\<close> throws when the file does not exist.\<close>

definition unlinkSync :: "string \<Rightarrow> world \<Rightarrow> string option \<times> world" where
  "unlinkSync p w =
     (case files w p of
        None \<Rightarrow> (Some ''ENOENT: no such file or directory'', emit (Unlink p) w)
      | Some content \<Rightarrow> (None, emit (Unlink p) (w\<lparr>files := (files w)(p := None)\<rparr>)))"

text \<open>
  The collaborators outside the repository, as parameters: the directory of the script
  (\<^verbatim>\<open>__dirname\<close>), what \<^verbatim>\<open>Date.now()\<close> returns when the handler computes the path
  (milliseconds), \<^verbatim>\<open>node-fetch\<close>, \<^verbatim>\<open>pdf-to-printer\<close>, the events that the
  \<^verbatim>\<open>net.Socket\<close> to a host emits, and the \<^verbatim>\<open>ipp\<close> library. A rejected promise
  carries the message of its error (\<^term>\<open>None\<close>: the promise resolves). The promises
  of the fetch, of the spooler and of the IPP exchange settle; the one around the socket
  settles only when the socket closes or fails.
\<close>

datatype body = BodyFails string | Body "byte list"

datatype fetch_outcome = FetchRejects string | FetchResponse bool string body

datatype sock_event = Connected | SockError string | Closed

record env =
  script_dir :: string
  now :: nat
  fetch :: "string \<Rightarrow> fetch_outcome"
  pdf_print :: "string \<Rightarrow> string option \<Rightarrow> string option"
  sock_events :: "string \<Rightarrow> sock_event list"
  ipp_execute :: "string \<Rightarrow> byte list \<Rightarrow> string option"

text \<open>How the \<^verbatim>\<open>try\<close> block ends: a response is returned, an error is thrown, or an
  awaited promise never settles.\<close>

datatype completion = Return response | Throw string | Pending

section \<open>The temporary file\<close>

text \<open>The decimal digits of a number, as a template literal prints them.\<close>

fun decimal :: "nat \<Rightarrow> string" where
  "decimal n =
     (if n < 10 then [''0123456789'' ! n]
      else decimal (n div 10) @ [''0123456789'' ! (n mod 10)])"

declare decimal.simps [simp del]

text \<open>\<^verbatim>\<open>path.join(__dirname, "tmp", `print-${Date.now()}.pdf`)\<close> (lines 88 and 98).\<close>

definition tmp_dir :: "env \<Rightarrow> string" where
  "tmp_dir e = script_dir e @ ''/tmp''"

definition temp_path :: "env \<Rightarrow> string" where
  "temp_path e = tmp_dir e @ ''/print-'' @ decimal (now e) @ ''.pdf''"

definition write_temp :: "env \<Rightarrow> byte list \<Rightarrow> world \<Rightarrow> string \<times> world" where
  "write_temp e buffer w =
     (let filePath = temp_path e;
          w1 = mkdirSync (tmp_dir e) w;
          w2 = writeFileSync filePath buffer w1
      in (filePath, w2))"

section \<open>The handler of POST /print\<close>

text \<open>
  \<^verbatim>\<open>await fetch(fileUrl)\<close> and \<^verbatim>\<open>await resp.buffer()\<close>; the message of a response
  that is not ok is the caller's (line 96 and line 181 differ).
\<close>

definition fetch_buffer :: "env \<Rightarrow> string \<Rightarrow> (string \<Rightarrow> string) \<Rightarrow> world \<Rightarrow> (completion + byte list) \<times> world" where
  "fetch_buffer e url not_ok w =
     (let w1 = emit (Fetch url) w in
      case fetch e url of
        FetchRejects m \<Rightarrow> (Inl (Throw m), w1)
      | FetchResponse ok statusText b \<Rightarrow>
          if \<not> ok then (Inl (Throw (not_ok statusText)), w1)
          else (case b of
                  BodyFails m \<Rightarrow> (Inl (Throw m), w1)
                | Body buffer \<Rightarrow> (Inr buffer, w1)))"

text \<open>
  Lines 79 to 101: the file to print. The test of line 73 and the \<^verbatim>\<open>if (fileBase64)\<close>
  of line 80 are one case distinction here.
\<close>

definition os_file :: "env \<Rightarrow> job \<Rightarrow> world \<Rightarrow> (completion + string) \<times> world" where
  "os_file e j w =
     (case (present (fileBase64 j), present (fileUrl j)) of
        (None, None) \<Rightarrow>
          (Inl (Return (json_error 400 ''fileUrl or fileBase64 required for mode=os'')), w)
      | (Some b64, u) \<Rightarrow>
          (case match_base64 b64 of
             None \<Rightarrow> (Inl (Return (json_error 400 ''Invalid fileBase64 payload'')), w)
           | Some enc \<Rightarrow>
               (case write_temp e (buffer_from_base64 enc) w of
                  (filePath, w') \<Rightarrow> (Inr filePath, w')))
      | (None, Some url) \<Rightarrow>
          (case fetch_buffer e url (\<lambda>statusText. ''Failed to fetch file: '' @ statusText) w of
             (Inl c, w') \<Rightarrow> (Inl c, w')
           | (Inr buffer, w') \<Rightarrow>
               (case write_temp e buffer w' of
                  (filePath, w'') \<Rightarrow> (Inr filePath, w''))))"

text \<open>Lines 71 to 121.\<close>

definition os_mode :: "env \<Rightarrow> job \<Rightarrow> world \<Rightarrow> completion \<times> world" where
  "os_mode e j w =
     (case os_file e j w of
        (Inl c, w') \<Rightarrow> (c, w')
      | (Inr filePath, w') \<Rightarrow>
          (let options = present (printerName j);
               w1 = emit (Print filePath options) w'
           in case pdf_print e filePath options of
                Some m \<Rightarrow> (Throw m, w1)
              | None \<Rightarrow>
                  (case unlinkSync filePath w1 of
                     (ignored, w2) \<Rightarrow>
                       (Return (json_success ''os'' ''Sent to OS print spooler''), w2))))"

text \<open>The bytes the \<^verbatim>\<open>connect\<close> callback writes (lines 141 to 143).\<close>

definition raw_bytes :: "string \<Rightarrow> byte list" where
  "raw_bytes r =
     (case match_data_base64 r of
        Some enc \<Rightarrow> buffer_from_base64 enc
      | None \<Rightarrow> utf8_encode r)"

text \<open>The promise of lines 137 to 149: the first call of \<^verbatim>\<open>resolve\<close> or \<^verbatim>\<open>reject\<close> settles it.\<close>

datatype promise = Unsettled | Resolved | Rejected string

definition settle :: "promise \<Rightarrow> promise \<Rightarrow> promise" where
  "settle new p = (if p = Unsettled then new else p)"

fun on_event :: "byte list \<Rightarrow> promise \<times> world \<Rightarrow> sock_event \<Rightarrow> promise \<times> world" where
  "on_event buffer (p, w) Connected = (p, emit SockEnd (emit (SockWrite buffer) w))"
| "on_event buffer (p, w) Closed = (settle Resolved p, w)"
| "on_event buffer (p, w) (SockError m) = (settle (Rejected m) p, w)"

definition socket_exchange :: "env \<Rightarrow> string \<Rightarrow> byte list \<Rightarrow> world \<Rightarrow> promise \<times> world" where
  "socket_exchange e ip buffer w =
     foldl (on_event buffer) (Unsettled, emit (SockConnect 9100 ip) w) (sock_events e ip)"

text \<open>Lines 123 to 156.\<close>

definition tcp_mode :: "env \<Rightarrow> job \<Rightarrow> world \<Rightarrow> completion \<times> world" where
  "tcp_mode e j w =
     (case present (printerIp j) of
        None \<Rightarrow> (Return (json_error 400 ''printerIp required for mode=tcp''), w)
      | Some ip \<Rightarrow>
          (case present (raw j) of
             None \<Rightarrow> (Return (json_error 400 ''raw data required for tcp mode''), w)
           | Some r \<Rightarrow>
               (case socket_exchange e ip (raw_bytes r) w of
                  (Resolved, w') \<Rightarrow> (Return (json_success ''tcp'' ''Raw TCP sent to printer''), w')
                | (Rejected m, w') \<Rightarrow> (Throw m, w')
                | (Unsettled, w') \<Rightarrow> (Pending, w'))))"

text \<open>Lines 170 to 183: the document of an IPP job.\<close>

definition ipp_buffer :: "env \<Rightarrow> job \<Rightarrow> world \<Rightarrow> (completion + byte list) \<times> world" where
  "ipp_buffer e j w =
     (case (present (fileBase64 j), present (fileUrl j)) of
        (None, None) \<Rightarrow>
          (Inl (Return (json_error 400 ''fileUrl or fileBase64 required for ipp'')), w)
      | (Some b64, u) \<Rightarrow>
          (case match_base64 b64 of
             None \<Rightarrow> (Inl (Return (json_error 400 ''Invalid fileBase64'')), w)
           | Some enc \<Rightarrow> (Inr (buffer_from_base64 enc), w))
      | (None, Some url) \<Rightarrow> fetch_buffer e url (\<lambda>statusText. ''Failed to fetch fileUrl'') w)"

text \<open>Lines 158 to 205.\<close>

definition ipp_mode :: "env \<Rightarrow> job \<Rightarrow> world \<Rightarrow> completion \<times> world" where
  "ipp_mode e j w =
     (case present (printerIp j) of
        None \<Rightarrow> (Return (json_error 400 ''printerIp required for mode=ipp''), w)
      | Some ip \<Rightarrow>
          (case ipp_buffer e j w of
             (Inl c, w') \<Rightarrow> (c, w')
           | (Inr fileBuffer, w') \<Rightarrow>
               (let printerURL = ''http://'' @ ip @ '':631/ipp/print'';
                    w1 = emit (IppExecute printerURL fileBuffer) w'
                in case ipp_execute e printerURL fileBuffer of
                     Some m \<Rightarrow> (Throw m, w1)
                   | None \<Rightarrow> (Return (json_success ''ipp'' ''IPP job sent''), w1))))"

text \<open>The default of line 62: \<^verbatim>\<open>mode = "os"\<close> when the body has no \<^verbatim>\<open>mode\<close>.\<close>

definition declared_mode :: "job \<Rightarrow> string" where
  "declared_mode j = (case mode j of None \<Rightarrow> ''os'' | Some s \<Rightarrow> s)"

text \<open>The \<^verbatim>\<open>try\<close> block (lines 70 to 207).\<close>

definition try_block :: "env \<Rightarrow> job \<Rightarrow> world \<Rightarrow> completion \<times> world" where
  "try_block e j w =
     (let m = declared_mode j in
      if m = ''os'' then os_mode e j w
      else if m = ''tcp'' then tcp_mode e j w
      else if m = ''ipp'' then ipp_mode e j w
      else (Return (json_error 400 ''Unsupported mode''), w))"

text \<open>
  The handler with its \<^verbatim>\<open>catch\<close> (lines 208 to 211): a thrown error becomes a response
  of status 500 with the error's message. \<^term>\<open>None\<close>: the handler never responds.
\<close>

definition print_handler :: "env \<Rightarrow> job \<Rightarrow> world \<Rightarrow> response option \<times> world" where
  "print_handler e j w =
     (case try_block e j w of
        (Return r, w') \<Rightarrow> (Some r, w')
      | (Throw m, w') \<Rightarrow> (Some (json_error 500 m), w')
      | (Pending, w') \<Rightarrow> (None, w'))"

section \<open>Notions of the specification\<close>

text \<open>
  A job lacks a field that its declared mode requires: OS needs a document source, a raw
  socket job needs the printer address and the raw payload, IPP needs the printer address
  and a document source.
\<close>

definition no_document :: "job \<Rightarrow> bool" where
  "no_document j = (present (fileUrl j) = None \<and> present (fileBase64 j) = None)"

definition missing_required :: "job \<Rightarrow> bool" where
  "missing_required j =
     (if declared_mode j = ''os'' then no_document j
      else if declared_mode j = ''tcp'' then present (printerIp j) = None \<or> present (raw j) = None
      else if declared_mode j = ''ipp'' then present (printerIp j) = None \<or> no_document j
      else False)"

text \<open>The message that names the first missing field, in the order of the mode's checks.\<close>

definition missing_field_message :: "job \<Rightarrow> string" where
  "missing_field_message j =
     (if declared_mode j = ''os'' then ''fileUrl or fileBase64 required for mode=os''
      else if declared_mode j = ''tcp'' then
        (if present (printerIp j) = None then ''printerIp required for mode=tcp''
         else ''raw data required for tcp mode'')
      else
        (if present (printerIp j) = None then ''printerIp required for mode=ipp''
         else ''fileUrl or fileBase64 required for ipp''))"

text \<open>
  The event sequences of one \<^verbatim>\<open>net.Socket\<close>: the connection is established at most
  once and before anything else, an error comes at most once, and \<^verbatim>\<open>close\<close> is the
  last event. A sequence may stop early: a peer that never answers or never closes.
\<close>

fun socket_lifecycle :: "sock_event list \<Rightarrow> bool" where
  "socket_lifecycle [] = True"
| "socket_lifecycle [Connected] = True"
| "socket_lifecycle [Connected, Closed] = True"
| "socket_lifecycle [Connected, SockError m] = True"
| "socket_lifecycle [Connected, SockError m, Closed] = True"
| "socket_lifecycle [SockError m] = True"
| "socket_lifecycle [SockError m, Closed] = True"
| "socket_lifecycle evs = False"

section \<open>Sample requests and environments\<close>

definition no_fields :: job where
  "no_fields = \<lparr>mode = None, printerName = None, printerIp = None, fileUrl = None,
     fileBase64 = None, raw = None\<rparr>"

definition empty_world :: world where
  "empty_world = \<lparr>files = Map.empty, trace = []\<rparr>"

text \<open>Every collaborator succeeds; the clock reads 1700000000000.\<close>

definition fair_env :: env where
  "fair_env = \<lparr>script_dir = ''/srv/print'', now = 1700000000000,
     fetch = (\<lambda>url. FetchResponse True ''OK'' (Body [0x25, 0x50, 0x44, 0x46])),
     pdf_print = (\<lambda>filePath options. None),
     sock_events = (\<lambda>host. [Connected, Closed]),
     ipp_execute = (\<lambda>printerURL buffer. None)\<rparr>"

text \<open>The spooler rejects every job.\<close>

definition spooler_down_env :: env where
  "spooler_down_env = fair_env\<lparr>pdf_print := (\<lambda>filePath options. Some ''Printer not found'')\<rparr>"

text \<open>Every fetch is answered with 404 Not Found.\<close>

definition not_found_env :: env where
  "not_found_env = fair_env\<lparr>fetch := (\<lambda>url. FetchResponse False ''Not Found'' (Body []))\<rparr>"

text \<open>The printer resets the connection after the connect.\<close>

definition reset_env :: env where
  "reset_env = fair_env\<lparr>sock_events := (\<lambda>host. [Connected, SockError ''read ECONNRESET'', Closed])\<rparr>"

definition pdf_inline :: string where
  "pdf_inline = ''application/pdf;base64,JVBERi0x''"

definition pdf_bytes :: "byte list" where
  "pdf_bytes = [0x25, 0x50, 0x44, 0x46, 0x2d, 0x31]"

definition os_inline_job :: job where
  "os_inline_job = no_fields\<lparr>mode := Some ''os'', fileBase64 := Some pdf_inline\<rparr>"

definition os_url_job :: job where
  "os_url_job = no_fields\<lparr>fileUrl := Some ''http://bad.example/x.pdf''\<rparr>"

definition ipp_url_job :: job where
  "ipp_url_job = no_fields\<lparr>mode := Some ''ipp'', printerIp := Some ''10.0.0.9'',
     fileUrl := Some ''http://bad.example/x.pdf''\<rparr>"

definition tcp_no_raw_job :: job where
  "tcp_no_raw_job = no_fields\<lparr>mode := Some ''tcp'', printerIp := Some ''10.0.0.5''\<rparr>"

definition tcp_job :: "string \<Rightarrow> job" where
  "tcp_job r = no_fields\<lparr>mode := Some ''tcp'', printerIp := Some ''10.0.0.5'', raw := Some r\<rparr>"

definition sample_path :: string where
  "sample_path = ''/srv/print/tmp/print-1700000000000.pdf''"

definition hello_bytes :: "byte list" where
  "hello_bytes = [0x48, 0x65, 0x6c, 0x6c, 0x6f]"

text \<open>A second OS job, with another document.\<close>

definition hello_job :: job where
  "hello_job = no_fields\<lparr>fileBase64 := Some ''text/plain;base64,SGVsbG8=''\<rparr>"

text \<open>Inline documents without media type and delimiter, without the marker, and with a
  body outside the base64 alphabet.\<close>

definition bare_marker_job :: job where
  "bare_marker_job = no_fields\<lparr>fileBase64 := Some ''base64,JVBERi0x''\<rparr>"

definition no_marker_job :: job where
  "no_marker_job = no_fields\<lparr>fileBase64 := Some ''JVBERi0x''\<rparr>"

definition bad_body_job :: job where
  "bad_body_job = no_fields\<lparr>fileBase64 := Some ''application/pdf;base64,!!!!''\<rparr>"

text \<open>An IPP job that carries both document sources.\<close>

definition both_sources_job :: job where
  "both_sources_job = no_fields\<lparr>mode := Some ''ipp'', printerIp := Some ''10.0.0.9'',
     fileUrl := Some ''http://bad.example/x.pdf'', fileBase64 := Some pdf_inline\<rparr>"

section \<open>Auxiliary notions for the proofs\<close>

text \<open>What the handlers of one socket event add to the log.\<close>

fun writes_on :: "byte list \<Rightarrow> sock_event \<Rightarrow> effect list" where
  "writes_on buffer Connected = [SockWrite buffer, SockEnd]"
| "writes_on buffer ev = []"

section \<open>What the two regular expressions accept\<close>

lemma strip_prefix_iff: "strip_prefix p s = Some r \<longleftrightarrow> s = p @ r"
  by (induction p s rule: strip_prefix.induct) auto

lemma strip_prefix_append: "strip_prefix p (p @ r) = Some r"
  by (simp add: strip_prefix_iff)

lemma match_base64_Some:
  "match_base64 s = Some rest \<Longrightarrow> (\<exists>pre. s = pre @ ''base64,'' @ rest) \<and> dot_star rest"
proof (induction s)
  case Nil
  then show ?case by simp
next
  case (Cons c cs)
  show ?case
  proof (cases "strip_prefix ''base64,'' (c # cs)")
    case None
    with Cons.prems have "match_base64 cs = Some rest" by simp
    with Cons.IH obtain pre where "cs = pre @ ''base64,'' @ rest" and "dot_star rest" by blast
    then have "c # cs = (c # pre) @ ''base64,'' @ rest" by simp
    with \<open>dot_star rest\<close> show ?thesis by blast
  next
    case (Some r)
    then have eq: "c # cs = ''base64,'' @ r" by (simp only: strip_prefix_iff)
    show ?thesis
    proof (cases "dot_star r")
      case True
      with Some Cons.prems have "rest = r" by simp
      with eq True have "c # cs = [] @ ''base64,'' @ rest" and "dot_star rest" by simp_all
      then show ?thesis by blast
    next
      case False
      with Some Cons.prems have "match_base64 cs = Some rest" by simp
      with Cons.IH obtain pre where "cs = pre @ ''base64,'' @ rest" and "dot_star rest" by blast
      then have "c # cs = (c # pre) @ ''base64,'' @ rest" by simp
      with \<open>dot_star rest\<close> show ?thesis by blast
    qed
  qed
qed

lemma match_base64_None:
  "match_base64 s = None \<Longrightarrow> s = pre @ ''base64,'' @ rest \<Longrightarrow> \<not> dot_star rest"
proof (induction s arbitrary: pre)
  case Nil
  then show ?case by simp
next
  case (Cons c cs)
  show ?case
  proof (cases pre)
    case Nil
    with Cons.prems(2) have "strip_prefix ''base64,'' (c # cs) = Some rest"
      by (simp only: strip_prefix_iff append_Nil)
    with Cons.prems(1) show ?thesis by (simp split: if_splits)
  next
    case (Cons p ps)
    with Cons.prems(2) have cs: "cs = ps @ ''base64,'' @ rest" by simp
    from Cons.prems(1) have "match_base64 cs = None"
      by (simp split: option.splits if_splits)
    from Cons.IH [OF this cs] show ?thesis .
  qed
qed

lemma after_last_marker_Some:
  "after_last_marker t = Some text \<Longrightarrow> \<exists>mid. t = mid @ '';base64,'' @ text"
proof (induction t)
  case Nil
  then show ?case by simp
next
  case (Cons c cs)
  show ?case
  proof (cases "after_last_marker cs")
    case None
    with Cons.prems have "strip_prefix '';base64,'' (c # cs) = Some text" by simp
    then have "c # cs = [] @ '';base64,'' @ text" by (simp only: strip_prefix_iff append_Nil)
    then show ?thesis by blast
  next
    case (Some r)
    with Cons.prems have "after_last_marker cs = Some text" by simp
    with Cons.IH obtain mid where "cs = mid @ '';base64,'' @ text" by blast
    then have "c # cs = (c # mid) @ '';base64,'' @ text" by simp
    then show ?thesis by blast
  qed
qed

lemma after_last_marker_None:
  "after_last_marker t = None \<Longrightarrow> t \<noteq> mid @ '';base64,'' @ text"
proof (induction t arbitrary: mid)
  case Nil
  then show ?case by simp
next
  case (Cons c cs)
  from Cons.prems have tail: "after_last_marker cs = None"
    and here: "strip_prefix '';base64,'' (c # cs) = None"
    by (simp_all split: option.splits del: strip_prefix.simps)
  show ?case
  proof (cases mid)
    case Nil
    show ?thesis
    proof
      assume "c # cs = mid @ '';base64,'' @ text"
      with Nil have "strip_prefix '';base64,'' (c # cs) = Some text"
        by (simp only: strip_prefix_iff append_Nil)
      with here show False by simp
    qed
  next
    case (Cons m ms)
    from Cons.IH [OF tail, of ms] Cons show ?thesis by auto
  qed
qed

lemma dot_star_append: "dot_star (a @ b) \<longleftrightarrow> dot_star a \<and> dot_star b"
  by (simp add: dot_star_def)

lemma match_data_base64_Some:
  "match_data_base64 r = Some text \<Longrightarrow>
     (\<exists>mid. r = ''data:'' @ mid @ '';base64,'' @ text) \<and> dot_star r"
proof -
  assume m: "match_data_base64 r = Some text"
  then obtain t where t: "strip_prefix ''data:'' r = Some t"
    by (auto simp: match_data_base64_def split: option.splits)
  with m have ds: "dot_star t" and al: "after_last_marker t = Some text"
    by (auto simp: match_data_base64_def split: if_splits)
  from t have r: "r = ''data:'' @ t" by (simp only: strip_prefix_iff)
  from al obtain mid where "t = mid @ '';base64,'' @ text"
    using after_last_marker_Some by blast
  with r ds show ?thesis by (auto simp: dot_star_def line_terminator_def)
qed

lemma match_data_base64_None:
  "match_data_base64 r = None \<Longrightarrow> r = ''data:'' @ mid @ '';base64,'' @ text \<Longrightarrow> \<not> dot_star r"
proof
  assume n: "match_data_base64 r = None" and r: "r = ''data:'' @ mid @ '';base64,'' @ text"
    and d: "dot_star r"
  from r have sp: "strip_prefix ''data:'' r = Some (mid @ '';base64,'' @ text)"
    by (simp only: strip_prefix_iff)
  from d r have "dot_star (mid @ '';base64,'' @ text)"
    by (simp add: dot_star_def)
  with n sp have "after_last_marker (mid @ '';base64,'' @ text) = None"
    by (simp add: match_data_base64_def)
  then show False using after_last_marker_None by blast
qed

lemma match_base64_first:
  "match_base64 s = Some rest \<Longrightarrow> s = pre @ ''base64,'' @ rest' \<Longrightarrow> dot_star rest'
     \<Longrightarrow> length rest' \<le> length rest"
proof (induction s arbitrary: pre)
  case Nil
  then show ?case by simp
next
  case (Cons c cs)
  show ?case
  proof (cases pre)
    case Nil
    with Cons.prems(2) have "strip_prefix ''base64,'' (c # cs) = Some rest'"
      by (simp only: strip_prefix_iff append_Nil)
    with Cons.prems(1,3) show ?thesis by simp
  next
    case (Cons p ps)
    with Cons.prems(2) have cs: "cs = ps @ ''base64,'' @ rest'" by simp
    show ?thesis
    proof (cases "match_base64 cs = Some rest")
      case True
      from Cons.IH [OF True cs Cons.prems(3)] show ?thesis .
    next
      case False
      with Cons.prems(1) have "strip_prefix ''base64,'' (c # cs) = Some rest"
        by (simp split: option.splits if_splits del: strip_prefix.simps)
      then have "c # cs = ''base64,'' @ rest" by (simp only: strip_prefix_iff)
      then have "length (c # cs) = 7 + length rest" by simp
      moreover from Cons.prems(2) have "length (c # cs) = length pre + 7 + length rest'" by simp
      ultimately show ?thesis by simp
    qed
  qed
qed

lemma after_last_marker_last:
  "after_last_marker t = Some enc \<Longrightarrow> t = mid @ '';base64,'' @ enc'
     \<Longrightarrow> length enc \<le> length enc'"
proof (induction t arbitrary: mid)
  case Nil
  then show ?case by simp
next
  case (Cons c cs)
  show ?case
  proof (cases "after_last_marker cs")
    case None
    with Cons.prems(1) have "strip_prefix '';base64,'' (c # cs) = Some enc"
      by (simp del: strip_prefix.simps)
    then have whole: "c # cs = '';base64,'' @ enc" by (simp only: strip_prefix_iff)
    show ?thesis
    proof (cases mid)
      case Nil
      with Cons.prems(2) whole show ?thesis by simp
    next
      case (Cons m ms)
      with Cons.prems(2) have "cs = ms @ '';base64,'' @ enc'" by simp
      with after_last_marker_None [OF None] show ?thesis by blast
    qed
  next
    case (Some r)
    with Cons.prems(1) have tail: "after_last_marker cs = Some enc" by simp
    show ?thesis
    proof (cases mid)
      case Nil
      from after_last_marker_Some [OF tail] obtain mid' where "cs = mid' @ '';base64,'' @ enc"
        by blast
      then have "length cs = length mid' + 8 + length enc" by simp
      moreover from Nil Cons.prems(2) have "length (c # cs) = 8 + length enc'" by simp
      ultimately show ?thesis by simp
    next
      case (Cons m ms)
      with Cons.prems(2) have "cs = ms @ '';base64,'' @ enc'" by simp
      from Cons.IH [OF tail this] show ?thesis .
    qed
  qed
qed

lemma match_data_base64_last:
  assumes "match_data_base64 r = Some enc" and "r = ''data:'' @ mid @ '';base64,'' @ enc'"
  shows "length enc \<le> length enc'"
proof -
  from assms(2) have sp: "strip_prefix ''data:'' r = Some (mid @ '';base64,'' @ enc')"
    by (simp only: strip_prefix_iff)
  with assms(1) have "after_last_marker (mid @ '';base64,'' @ enc') = Some enc"
    by (simp add: match_data_base64_def split: if_splits)
  from after_last_marker_last [OF this refl] show ?thesis .
qed

lemma match_base64_pdf_prefix:
  "dot_star B \<Longrightarrow> match_base64 (''application/pdf;base64,'' @ B) = Some B"
  by simp

section \<open>Base64: the decoder inverts the encoder\<close>

lemma base64_code_less: "base64_code n < 256"
  by (auto simp: base64_code_def)

lemma div_mult_add: "y < k \<Longrightarrow> (x * k + y) div k = (x::nat)"
  by simp

lemma mod_mult_add: "y < k \<Longrightarrow> (x * k + y) mod k = (y::nat)"
  by simp

lemma of_char_base64_char: "(of_char (base64_char n) :: nat) = base64_code n"
  using base64_code_less [of n] by (simp add: base64_char_def)

lemma unbase64_base64_char: "n < 64 \<Longrightarrow> unbase64 (base64_char n) = Some n"
  by (auto simp: unbase64_def of_char_base64_char base64_code_def Let_def)

lemma std_sextet_base64_char: "n < 64 \<Longrightarrow> std_sextet (base64_char n) = Some n"
  by (auto simp: std_sextet_def unbase64_def of_char_base64_char base64_code_def Let_def)

lemma std_sextet_less: "std_sextet c = Some v \<Longrightarrow> v < 64"
  by (auto simp: std_sextet_def unbase64_def Let_def split: if_splits)

lemma std_sextet_unbase64: "std_sextet c = Some v \<Longrightarrow> unbase64 c = Some v"
  by (auto simp: std_sextet_def split: if_splits)

lemma std_sextet_char: "std_sextet c = Some v \<Longrightarrow> base64_char v = c"
proof -
  assume a: "std_sextet c = Some v"
  then have "base64_code v = (of_char c :: nat)"
    by (auto simp: std_sextet_def unbase64_def base64_code_def Let_def split: if_splits)
  then have "char_of (base64_code v) = char_of (of_char c :: nat)" by simp
  then show ?thesis by (simp add: base64_char_def)
qed

lemma pad_not_sextet: "unbase64 CHR ''='' = None"
  by (simp add: unbase64_def)

lemma std_sextet_pad: "std_sextet CHR ''='' = None"
  by (simp add: std_sextet_def unbase64_def)

lemma byte_unat: "n < 256 \<Longrightarrow> unat (of_nat n :: byte) = n"
  by (simp add: unat_of_nat)

lemma unat_byte: "unat (a :: byte) < 256"
  using unsigned_less [of a] by simp

lemma sextets_quad:
  "\<lbrakk>unbase64 a = Some va; unbase64 b = Some vb; unbase64 c = Some vc; unbase64 d = Some vd\<rbrakk>
   \<Longrightarrow> base64_sextets (a # b # c # d # r) = va # vb # vc # vd # base64_sextets r"
  by simp

lemma encode_quad:
  assumes "va < 64" "vb < 64" "vc < 64" "vd < 64"
  shows "base64_encode (of_nat (va * 4 + vb div 16) # of_nat ((vb mod 16) * 16 + vc div 4)
           # of_nat ((vc mod 4) * 64 + vd) # bs)
         = base64_char va # base64_char vb # base64_char vc # base64_char vd # base64_encode bs"
proof -
  have hb: "vb div 16 < 4" and hc: "vc div 4 < 16" using assms by simp_all
  have b1: "va * 4 + vb div 16 < 256" using assms by simp
  have b2: "(vb mod 16) * 16 + vc div 4 < 256"
    using hc mod_less_divisor [of 16 vb] by simp
  have b3: "(vc mod 4) * 64 + vd < 256"
    using assms mod_less_divisor [of 4 vc] by simp
  have e1: "(va * 4 + vb div 16) div 4 = va" by (rule div_mult_add [OF hb])
  have "(va * 4 + vb div 16) mod 4 = vb div 16" by (rule mod_mult_add [OF hb])
  moreover have "((vb mod 16) * 16 + vc div 4) div 16 = vb mod 16" by (rule div_mult_add [OF hc])
  ultimately have e2: "((va * 4 + vb div 16) mod 4) * 16 + ((vb mod 16) * 16 + vc div 4) div 16 = vb"
    by simp
  have "((vb mod 16) * 16 + vc div 4) mod 16 = vc div 4" by (rule mod_mult_add [OF hc])
  moreover have "((vc mod 4) * 64 + vd) div 64 = vc mod 4" by (rule div_mult_add [OF assms(4)])
  ultimately have e3: "(((vb mod 16) * 16 + vc div 4) mod 16) * 4 + ((vc mod 4) * 64 + vd) div 64 = vc"
    by simp
  have e4: "((vc mod 4) * 64 + vd) mod 64 = vd" by (rule mod_mult_add [OF assms(4)])
  show ?thesis
    by (simp only: base64_encode.simps byte_unat [OF b1] byte_unat [OF b2] byte_unat [OF b3] e1 e2 e3 e4)
qed

lemma encode_triple:
  assumes "va < 64" "vb < 64" "vc < 64" "vc mod 4 = 0"
  shows "base64_encode [of_nat (va * 4 + vb div 16), of_nat ((vb mod 16) * 16 + vc div 4)]
         = [base64_char va, base64_char vb, base64_char vc, CHR ''='']"
proof -
  have hb: "vb div 16 < 4" and hc: "vc div 4 < 16" using assms by simp_all
  have b1: "va * 4 + vb div 16 < 256" using assms by simp
  have b2: "(vb mod 16) * 16 + vc div 4 < 256"
    using hc mod_less_divisor [of 16 vb] by simp
  have e1: "(va * 4 + vb div 16) div 4 = va" by (rule div_mult_add [OF hb])
  have "(va * 4 + vb div 16) mod 4 = vb div 16" by (rule mod_mult_add [OF hb])
  moreover have "((vb mod 16) * 16 + vc div 4) div 16 = vb mod 16" by (rule div_mult_add [OF hc])
  ultimately have e2: "((va * 4 + vb div 16) mod 4) * 16 + ((vb mod 16) * 16 + vc div 4) div 16 = vb"
    by simp
  have "((vb mod 16) * 16 + vc div 4) mod 16 = vc div 4" by (rule mod_mult_add [OF hc])
  moreover have "(vc div 4) * 4 = vc" using assms(4) by auto
  ultimately have e3: "(((vb mod 16) * 16 + vc div 4) mod 16) * 4 = vc" by simp
  show ?thesis
    by (simp only: base64_encode.simps byte_unat [OF b1] byte_unat [OF b2] e1 e2 e3)
qed

lemma encode_pair:
  assumes "va < 64" "vb < 64" "vb mod 16 = 0"
  shows "base64_encode [of_nat (va * 4 + vb div 16)]
         = [base64_char va, base64_char vb, CHR ''='', CHR ''='']"
proof -
  have hb: "vb div 16 < 4" using assms by simp
  have b1: "va * 4 + vb div 16 < 256" using assms by simp
  have e1: "(va * 4 + vb div 16) div 4 = va" by (rule div_mult_add [OF hb])
  have "(va * 4 + vb div 16) mod 4 = vb div 16" by (rule mod_mult_add [OF hb])
  moreover have "(vb div 16) * 16 = vb" using assms(3) by auto
  ultimately have e2: "((va * 4 + vb div 16) mod 4) * 16 = vb" by simp
  show ?thesis
    by (simp only: base64_encode.simps byte_unat [OF b1] e1 e2)
qed

lemma is_base64_round_trip: "is_base64 B \<Longrightarrow> base64_encode (buffer_from_base64 B) = B"
proof (induction B rule: is_base64.induct)
  case 1
  then show ?case by (simp add: buffer_from_base64_def)
next
  case (2 a b c d r)
  from "2.prems" obtain va vb where ab: "std_sextet a = Some va" "std_sextet b = Some vb"
    by (auto split: option.splits)
  note lt = std_sextet_less [OF ab(1)] std_sextet_less [OF ab(2)]
  note un = std_sextet_unbase64 [OF ab(1)] std_sextet_unbase64 [OF ab(2)]
  note ch = std_sextet_char [OF ab(1)] std_sextet_char [OF ab(2)]
  show ?case
  proof (cases "std_sextet c")
    case None
    with "2.prems" ab have pad: "c = CHR ''=''" "d = CHR ''=''" "vb mod 16 = 0" "r = []"
      by (auto split: option.splits)
    have "base64_sextets (a # b # c # d # r) = [va, vb]"
      using un pad by (simp add: pad_not_sextet)
    then show ?thesis
      using encode_pair [OF lt pad(3)] ch pad by (simp add: buffer_from_base64_def)
  next
    case (Some vc)
    note ltc = std_sextet_less [OF Some]
    note unc = std_sextet_unbase64 [OF Some]
    note chc = std_sextet_char [OF Some]
    show ?thesis
    proof (cases "std_sextet d")
      case None
      with "2.prems" ab Some have pad: "d = CHR ''=''" "vc mod 4 = 0" "r = []"
        by (auto split: option.splits)
      have "base64_sextets (a # b # c # d # r) = [va, vb, vc]"
        using un unc pad by (simp add: pad_not_sextet)
      then show ?thesis
        using encode_triple [OF lt ltc pad(2)] ch chc pad by (simp add: buffer_from_base64_def)
    next
      case (Some vd)
      note ltd = std_sextet_less [OF Some]
      note und = std_sextet_unbase64 [OF Some]
      note chd = std_sextet_char [OF Some]
      from "2.prems" ab \<open>std_sextet c = Some vc\<close> Some have r: "is_base64 r" by simp
      have ih: "base64_encode (buffer_from_base64 r) = r"
        by (rule "2.IH" [OF refl ab refl \<open>std_sextet c = Some vc\<close> Some r])
      have "base64_sextets (a # b # c # d # r) = va # vb # vc # vd # base64_sextets r"
        using un unc und by simp
      then show ?thesis
        using encode_quad [OF lt ltc ltd] ch chc chd ih by (simp add: buffer_from_base64_def)
    qed
  qed
qed simp_all

lemma pack_quad:
  fixes a b c :: byte
  shows "pack_sextets (unat a div 4 # ((unat a mod 4) * 16 + unat b div 16)
           # ((unat b mod 16) * 4 + unat c div 64) # (unat c mod 64) # r)
         = a # b # c # pack_sextets r"
proof -
  have hb: "unat b div 16 < 16" and hc: "unat c div 64 < 4"
    using unat_byte [of b] unat_byte [of c] by simp_all
  have "((unat a mod 4) * 16 + unat b div 16) div 16 = unat a mod 4"
    by (rule div_mult_add [OF hb])
  then have e1: "unat a div 4 * 4 + ((unat a mod 4) * 16 + unat b div 16) div 16 = unat a"
    by simp
  have "((unat a mod 4) * 16 + unat b div 16) mod 16 = unat b div 16"
    by (rule mod_mult_add [OF hb])
  moreover have "((unat b mod 16) * 4 + unat c div 64) div 4 = unat b mod 16"
    by (rule div_mult_add [OF hc])
  ultimately have e2: "(((unat a mod 4) * 16 + unat b div 16) mod 16) * 16
      + ((unat b mod 16) * 4 + unat c div 64) div 4 = unat b"
    by simp
  have "((unat b mod 16) * 4 + unat c div 64) mod 4 = unat c div 64"
    by (rule mod_mult_add [OF hc])
  then have e3: "(((unat b mod 16) * 4 + unat c div 64) mod 4) * 64 + unat c mod 64 = unat c"
    by simp
  have "pack_sextets (unat a div 4 # ((unat a mod 4) * 16 + unat b div 16)
           # ((unat b mod 16) * 4 + unat c div 64) # (unat c mod 64) # r)
         = of_nat (unat a) # of_nat (unat b) # of_nat (unat c) # pack_sextets r"
    by (simp only: pack_sextets.simps e1 e2 e3)
  then show ?thesis by simp
qed

lemma pack_triple:
  fixes a b :: byte
  shows "pack_sextets [unat a div 4, (unat a mod 4) * 16 + unat b div 16, (unat b mod 16) * 4]
         = [a, b]"
proof -
  have hb: "unat b div 16 < 16" using unat_byte [of b] by simp
  have "((unat a mod 4) * 16 + unat b div 16) div 16 = unat a mod 4"
    by (rule div_mult_add [OF hb])
  then have e1: "unat a div 4 * 4 + ((unat a mod 4) * 16 + unat b div 16) div 16 = unat a"
    by simp
  have "((unat a mod 4) * 16 + unat b div 16) mod 16 = unat b div 16"
    by (rule mod_mult_add [OF hb])
  then have e2: "(((unat a mod 4) * 16 + unat b div 16) mod 16) * 16
      + ((unat b mod 16) * 4) div 4 = unat b"
    by simp
  have "pack_sextets [unat a div 4, (unat a mod 4) * 16 + unat b div 16, (unat b mod 16) * 4]
         = [of_nat (unat a), of_nat (unat b)]"
    by (simp only: pack_sextets.simps e1 e2)
  then show ?thesis by simp
qed

lemma pack_pair:
  fixes a :: byte
  shows "pack_sextets [unat a div 4, (unat a mod 4) * 16] = [a]"
proof -
  have e1: "unat a div 4 * 4 + ((unat a mod 4) * 16) div 16 = unat a" by simp
  have "pack_sextets [unat a div 4, (unat a mod 4) * 16] = [of_nat (unat a)]"
    by (simp only: pack_sextets.simps e1)
  then show ?thesis by simp
qed

lemma sextet_bounds:
  fixes a b c :: byte
  shows "unat a div 4 < 64" "(unat a mod 4) * 16 + unat b div 16 < 64"
    "(unat b mod 16) * 4 + unat c div 64 < 64" "unat c mod 64 < 64"
    "(unat a mod 4) * 16 < 64" "(unat b mod 16) * 4 < 64"
  using unat_byte [of a] unat_byte [of b] unat_byte [of c]
    mod_less_divisor [of 4 "unat a"] mod_less_divisor [of 16 "unat b"]
  by simp_all

lemma sextets_cons: "n < 64 \<Longrightarrow> base64_sextets (base64_char n # s) = n # base64_sextets s"
  by (simp add: unbase64_base64_char)

lemma sextets_pad: "base64_sextets (CHR ''='' # s) = []"
  by (simp add: pad_not_sextet)

lemma base64_decode_encode: "buffer_from_base64 (base64_encode bs) = bs"
proof (induction bs rule: base64_encode.induct)
  case 1
  show ?case by (simp add: buffer_from_base64_def)
next
  case (2 a)
  show ?case
    by (simp only: buffer_from_base64_def base64_encode.simps sextets_cons sextet_bounds
        sextets_pad pack_pair)
next
  case (3 a b)
  show ?case
    by (simp only: buffer_from_base64_def base64_encode.simps sextets_cons sextet_bounds
        sextets_pad pack_triple)
next
  case (4 a b c r)
  then show ?case
    by (simp only: buffer_from_base64_def base64_encode.simps sextets_cons sextet_bounds
        pack_quad)
qed

lemma is_base64_encode: "is_base64 (base64_encode bs)"
proof (induction bs rule: base64_encode.induct)
  case 1
  show ?case by simp
next
  case (2 a)
  show ?case
    by (simp add: std_sextet_base64_char sextet_bounds std_sextet_pad)
next
  case (3 a b)
  show ?case
    by (simp add: std_sextet_base64_char sextet_bounds std_sextet_pad)
next
  case (4 a b c r)
  then show ?case
    by (simp add: std_sextet_base64_char sextet_bounds)
qed

lemma std_sextet_not_terminator: "std_sextet c = Some v \<Longrightarrow> \<not> line_terminator c"
  by (auto simp: std_sextet_def unbase64_def line_terminator_def Let_def split: if_splits)

lemma is_base64_dot_star: "is_base64 B \<Longrightarrow> dot_star B"
proof (induction B rule: is_base64.induct)
  case 1
  show ?case by (simp add: dot_star_def)
next
  case (2 a b c d r)
  from "2.prems" obtain va vb where ab: "std_sextet a = Some va" "std_sextet b = Some vb"
    by (auto split: option.splits)
  note nab = std_sextet_not_terminator [OF ab(1)] std_sextet_not_terminator [OF ab(2)]
  show ?case
  proof (cases "std_sextet c")
    case None
    with "2.prems" ab have "c = CHR ''=''" "d = CHR ''=''" "r = []"
      by (auto split: option.splits)
    with nab show ?thesis by (simp add: dot_star_def line_terminator_def)
  next
    case (Some vc)
    note nc = std_sextet_not_terminator [OF Some]
    show ?thesis
    proof (cases "std_sextet d")
      case None
      with "2.prems" ab Some have "d = CHR ''=''" "r = []"
        by (auto split: option.splits)
      with nab nc show ?thesis by (simp add: dot_star_def line_terminator_def)
    next
      case (Some vd)
      from "2.prems" ab \<open>std_sextet c = Some vc\<close> Some have r: "is_base64 r" by simp
      have "dot_star r"
        by (rule "2.IH" [OF refl ab refl \<open>std_sextet c = Some vc\<close> Some r])
      with nab nc std_sextet_not_terminator [OF Some] show ?thesis
        by (simp add: dot_star_def)
    qed
  qed
qed simp_all

section \<open>The effects of the file and socket operations\<close>

lemma emit_trace: "trace (emit ev w) = trace w @ [ev]"
  by (simp add: emit_def)

lemma emit_files: "files (emit ev w) = files w"
  by (simp add: emit_def)

lemma write_temp_trace:
  "trace (snd (write_temp e buffer w)) = trace w @ [Mkdir (tmp_dir e), WriteFile (temp_path e) buffer]"
  by (simp add: write_temp_def writeFileSync_def mkdirSync_def emit_def Let_def)

lemma write_temp_files:
  "files (snd (write_temp e buffer w)) = (files w)(temp_path e \<mapsto> buffer)"
  by (simp add: write_temp_def writeFileSync_def mkdirSync_def emit_def Let_def)

lemma unlinkSync_trace: "trace (snd (unlinkSync p w)) = trace w @ [Unlink p]"
  by (simp add: unlinkSync_def emit_def split: option.splits)

lemma unlinkSync_files: "files (snd (unlinkSync p w)) = (files w)(p := None)"
  by (auto simp: unlinkSync_def emit_def split: option.splits)

lemma foldl_on_event_world:
  "snd (foldl (on_event buffer) (p, w) evs)
     = w\<lparr>trace := trace w @ concat (map (writes_on buffer) evs)\<rparr>"
proof (induction evs arbitrary: p w)
  case Nil
  show ?case by simp
next
  case (Cons ev evs)
  show ?case by (cases ev) (simp_all add: Cons.IH emit_def)
qed

lemma socket_exchange_world:
  "snd (socket_exchange e ip buffer w)
     = w\<lparr>trace := trace w @ SockConnect 9100 ip # concat (map (writes_on buffer) (sock_events e ip))\<rparr>"
  by (simp add: socket_exchange_def foldl_on_event_world emit_def)

lemma socket_lifecycle_cases:
  "socket_lifecycle evs \<Longrightarrow>
     evs = [] \<or> evs = [Connected] \<or> evs = [Connected, Closed]
     \<or> (\<exists>m. evs = [Connected, SockError m] \<or> evs = [Connected, SockError m, Closed]
            \<or> evs = [SockError m] \<or> evs = [SockError m, Closed])"
  by (induction evs rule: socket_lifecycle.induct) simp_all

lemma temp_path_same_clock:
  "script_dir e1 = script_dir e2 \<Longrightarrow> now e1 = now e2 \<Longrightarrow> temp_path e1 = temp_path e2"
  by (simp add: temp_path_def tmp_dir_def)

section \<open>The handler, mode by mode\<close>

lemma present_None_iff: "present x = None \<longleftrightarrow> x = None \<or> x = Some []"
  by (cases x rule: present.cases) simp_all

lemma tcp_handler:
  assumes "declared_mode j = ''tcp''" "present (printerIp j) = Some ip" "present (raw j) = Some r"
  shows "print_handler e j w =
     (case fst (socket_exchange e ip (raw_bytes r) w) of
        Resolved \<Rightarrow> Some (json_success ''tcp'' ''Raw TCP sent to printer'')
      | Rejected m \<Rightarrow> Some (json_error 500 m)
      | Unsettled \<Rightarrow> None,
      snd (socket_exchange e ip (raw_bytes r) w))"
  using assms
  by (simp add: print_handler_def try_block_def tcp_mode_def split: prod.splits promise.splits)

lemma os_file_inline:
  assumes "present (fileBase64 j) = Some s"
  shows "os_file e j w =
     (case match_base64 s of
        None \<Rightarrow> (Inl (Return (json_error 400 ''Invalid fileBase64 payload'')), w)
      | Some enc \<Rightarrow> (Inr (temp_path e), snd (write_temp e (buffer_from_base64 enc) w)))"
  using assms by (simp add: os_file_def write_temp_def Let_def split: option.splits)

lemma ipp_buffer_inline:
  assumes "present (fileBase64 j) = Some s"
  shows "ipp_buffer e j w =
     (case match_base64 s of
        None \<Rightarrow> (Inl (Return (json_error 400 ''Invalid fileBase64'')), w)
      | Some enc \<Rightarrow> (Inr (buffer_from_base64 enc), w))"
  using assms by (simp add: ipp_buffer_def split: option.splits)

lemma os_handler:
  assumes "declared_mode j = ''os''"
  shows "print_handler e j w =
     (case os_file e j w of
        (Inl (Return r), w') \<Rightarrow> (Some r, w')
      | (Inl (Throw m), w') \<Rightarrow> (Some (json_error 500 m), w')
      | (Inl Pending, w') \<Rightarrow> (None, w')
      | (Inr filePath, w') \<Rightarrow>
          (case pdf_print e filePath (present (printerName j)) of
             Some m \<Rightarrow> (Some (json_error 500 m), emit (Print filePath (present (printerName j))) w')
           | None \<Rightarrow>
               (Some (json_success ''os'' ''Sent to OS print spooler''),
                snd (unlinkSync filePath (emit (Print filePath (present (printerName j))) w')))))"
  using assms
  by (simp add: print_handler_def try_block_def os_mode_def Let_def
      split: prod.splits sum.splits completion.splits option.splits)

lemma ipp_handler:
  assumes "declared_mode j = ''ipp''" "present (printerIp j) = Some ip"
  shows "print_handler e j w =
     (case ipp_buffer e j w of
        (Inl (Return r), w') \<Rightarrow> (Some r, w')
      | (Inl (Throw m), w') \<Rightarrow> (Some (json_error 500 m), w')
      | (Inl Pending, w') \<Rightarrow> (None, w')
      | (Inr fileBuffer, w') \<Rightarrow>
          (case ipp_execute e (''http://'' @ ip @ '':631/ipp/print'') fileBuffer of
             Some m \<Rightarrow> Some (json_error 500 m)
           | None \<Rightarrow> Some (json_success ''ipp'' ''IPP job sent''),
           emit (IppExecute (''http://'' @ ip @ '':631/ipp/print'') fileBuffer) w'))"
  using assms
  by (simp add: print_handler_def try_block_def ipp_mode_def Let_def
      split: prod.splits sum.splits completion.splits option.splits)

lemma os_handler_inline:
  assumes "declared_mode j = ''os''" "present (fileBase64 j) = Some s"
  shows "print_handler e j w =
     (case match_base64 s of
        None \<Rightarrow> (Some (json_error 400 ''Invalid fileBase64 payload''), w)
      | Some enc \<Rightarrow>
          (let w' = snd (write_temp e (buffer_from_base64 enc) w);
               w1 = emit (Print (temp_path e) (present (printerName j))) w'
           in case pdf_print e (temp_path e) (present (printerName j)) of
                Some m \<Rightarrow> (Some (json_error 500 m), w1)
              | None \<Rightarrow>
                  (Some (json_success ''os'' ''Sent to OS print spooler''),
                   snd (unlinkSync (temp_path e) w1))))"
  by (simp add: os_handler [OF assms(1)] os_file_inline [OF assms(2)] Let_def
      split: option.splits)

lemma ipp_handler_inline:
  assumes "declared_mode j = ''ipp''" "present (fileBase64 j) = Some s"
  shows "print_handler e j w =
     (case present (printerIp j) of
        None \<Rightarrow> (Some (json_error 400 ''printerIp required for mode=ipp''), w)
      | Some ip \<Rightarrow>
          (case match_base64 s of
             None \<Rightarrow> (Some (json_error 400 ''Invalid fileBase64''), w)
           | Some enc \<Rightarrow>
               (case ipp_execute e (''http://'' @ ip @ '':631/ipp/print'') (buffer_from_base64 enc) of
                  Some m \<Rightarrow> Some (json_error 500 m)
                | None \<Rightarrow> Some (json_success ''ipp'' ''IPP job sent''),
                emit (IppExecute (''http://'' @ ip @ '':631/ipp/print'') (buffer_from_base64 enc)) w)))"
proof (cases "present (printerIp j)")
  case None
  then show ?thesis
    using assms(1) by (simp add: print_handler_def try_block_def ipp_mode_def)
next
  case (Some ip)
  then show ?thesis
    by (simp add: ipp_handler [OF assms(1) Some] ipp_buffer_inline [OF assms(2)]
        split: option.splits)
qed

lemma os_handler_url:
  assumes "declared_mode j = ''os''" "present (fileBase64 j) = None" "present (fileUrl j) = Some u"
  shows "print_handler e j w =
     (case fetch e u of
        FetchRejects m \<Rightarrow> (Some (json_error 500 m), emit (Fetch u) w)
      | FetchResponse ok statusText b \<Rightarrow>
          if \<not> ok then (Some (json_error 500 (''Failed to fetch file: '' @ statusText)), emit (Fetch u) w)
          else (case b of
                  BodyFails m \<Rightarrow> (Some (json_error 500 m), emit (Fetch u) w)
                | Body buffer \<Rightarrow>
                    (let w' = snd (write_temp e buffer (emit (Fetch u) w));
                         w1 = emit (Print (temp_path e) (present (printerName j))) w'
                     in case pdf_print e (temp_path e) (present (printerName j)) of
                          Some m \<Rightarrow> (Some (json_error 500 m), w1)
                        | None \<Rightarrow>
                            (Some (json_success ''os'' ''Sent to OS print spooler''),
                             snd (unlinkSync (temp_path e) w1)))))"
  using assms(2,3)
  by (simp add: os_handler [OF assms(1)] os_file_def fetch_buffer_def write_temp_def Let_def
      split: fetch_outcome.splits body.splits option.splits)

text \<open>The two ends of an OS job with an inline document: the spooler accepts and the
  file is removed, the spooler rejects and the file stays.\<close>

lemma os_success_removes_temp_file:
  assumes "declared_mode j = ''os''" "present (fileBase64 j) = Some s"
    and "match_base64 s = Some enc"
    and "pdf_print e (temp_path e) (present (printerName j)) = None"
  shows "fst (print_handler e j w) = Some (json_success ''os'' ''Sent to OS print spooler'')"
    and "files (snd (print_handler e j w)) (temp_path e) = None"
  using assms(3,4)
  by (simp_all add: os_handler_inline [OF assms(1,2)] Let_def unlinkSync_files)

lemma os_failure_keeps_temp_file:
  assumes "declared_mode j = ''os''" "present (fileBase64 j) = Some s"
    and "match_base64 s = Some enc"
    and "pdf_print e (temp_path e) (present (printerName j)) = Some m"
  shows "fst (print_handler e j w) = Some (json_error 500 m)"
    and "files (snd (print_handler e j w)) (temp_path e) = Some (buffer_from_base64 enc)"
  using assms(3,4)
  by (simp_all add: os_handler_inline [OF assms(1,2)] Let_def emit_files write_temp_files)

text \<open>A fetch answered with a status that is not ok, in the two modes that fetch.\<close>

lemma os_fetch_not_ok:
  assumes "declared_mode j = ''os''" "present (fileBase64 j) = None"
    and "present (fileUrl j) = Some u" and "fetch e u = FetchResponse False statusText b"
  shows "print_handler e j w
     = (Some (json_error 500 (''Failed to fetch file: '' @ statusText)), emit (Fetch u) w)"
  using assms(4) by (simp add: os_handler_url [OF assms(1,2,3)])

lemma ipp_fetch_not_ok:
  assumes "declared_mode j = ''ipp''" "present (printerIp j) = Some ip"
    and "present (fileBase64 j) = None"
    and "present (fileUrl j) = Some u" and "fetch e u = FetchResponse False statusText b"
  shows "print_handler e j w = (Some (json_error 500 ''Failed to fetch fileUrl''), emit (Fetch u) w)"
  using assms(3,4,5)
  by (simp add: ipp_handler [OF assms(1,2)] ipp_buffer_def fetch_buffer_def Let_def)

section \<open>The samples, evaluated\<close>

lemma empty_world_fields: "trace empty_world = []" "files empty_world p = None"
  by (simp_all add: empty_world_def)

lemma decimal_sample: "decimal 1700000000000 = ''1700000000000''"
  by (simp add: decimal.simps)

lemma temp_path_fair: "temp_path fair_env = sample_path"
  by (simp add: temp_path_def tmp_dir_def fair_env_def decimal_sample sample_path_def)

lemma pdf_decoded: "buffer_from_base64 ''JVBERi0x'' = pdf_bytes"
  by (simp add: buffer_from_base64_def unbase64_def pdf_bytes_def)

lemma hello_decoded: "buffer_from_base64 ''SGVsbG8='' = hello_bytes"
  by (simp add: buffer_from_base64_def unbase64_def hello_bytes_def)

lemma no_sextets: "buffer_from_base64 ''!!!!'' = []"
  by (simp add: buffer_from_base64_def unbase64_def)

lemma is_base64_sample: "is_base64 ''JVBERi0x''"
  by (simp add: std_sextet_def unbase64_def)

lemma match_pdf_inline: "match_base64 pdf_inline = Some ''JVBERi0x''"
  by (simp add: pdf_inline_def dot_star_def line_terminator_def)

lemma match_hello: "match_base64 ''text/plain;base64,SGVsbG8='' = Some ''SGVsbG8=''"
  by (simp add: dot_star_def line_terminator_def)

lemma match_data_pdf: "match_data_base64 ''data:application/pdf;base64,JVBERi0x'' = Some ''JVBERi0x''"
  by (simp add: match_data_base64_def dot_star_def line_terminator_def)

lemma utf8_TEST: "utf8_encode ''TEST'' = [0x54, 0x45, 0x53, 0x54]"
  by (simp add: utf8_encode_def utf8_of_char_def)

lemma raw_bytes_TEST: "raw_bytes ''TEST'' = [0x54, 0x45, 0x53, 0x54]"
  by (simp add: raw_bytes_def match_data_base64_def utf8_TEST)

lemma tcp_job_fields:
  "declared_mode (tcp_job r) = ''tcp''" "present (printerIp (tcp_job r)) = Some ''10.0.0.5''"
  "raw (tcp_job r) = Some r"
  by (simp_all add: tcp_job_def no_fields_def declared_mode_def)

lemma os_inline_job_fields:
  "declared_mode os_inline_job = ''os''" "present (fileBase64 os_inline_job) = Some pdf_inline"
  "present (printerName os_inline_job) = None"
  by (simp_all add: os_inline_job_def no_fields_def declared_mode_def pdf_inline_def)

lemma os_url_job_fields:
  "declared_mode os_url_job = ''os''" "present (fileBase64 os_url_job) = None"
  "present (fileUrl os_url_job) = Some ''http://bad.example/x.pdf''"
  by (simp_all add: os_url_job_def no_fields_def declared_mode_def)

lemma ipp_url_job_fields:
  "declared_mode ipp_url_job = ''ipp''" "present (printerIp ipp_url_job) = Some ''10.0.0.9''"
  "present (fileBase64 ipp_url_job) = None"
  "present (fileUrl ipp_url_job) = Some ''http://bad.example/x.pdf''"
  by (simp_all add: ipp_url_job_def no_fields_def declared_mode_def)

lemma hello_job_fields:
  "present (fileBase64 hello_job) = Some ''text/plain;base64,SGVsbG8=''"
  by (simp add: hello_job_def no_fields_def)

lemma bare_marker_fields:
  "declared_mode bare_marker_job = ''os''"
  "present (fileBase64 bare_marker_job) = Some ''base64,JVBERi0x''"
  "present (printerName bare_marker_job) = None"
  by (simp_all add: bare_marker_job_def no_fields_def declared_mode_def)

lemma bad_body_fields:
  "declared_mode bad_body_job = ''os''"
  "present (fileBase64 bad_body_job) = Some ''application/pdf;base64,!!!!''"
  "present (printerName bad_body_job) = None"
  by (simp_all add: bad_body_job_def no_fields_def declared_mode_def)

lemma fetch_not_found: "fetch not_found_env url = FetchResponse False ''Not Found'' (Body [])"
  by (simp add: not_found_env_def)

section \<open>The claims\<close>

subsection \<open>C1: the temporary file after the driver call\<close>

text \<open>
  C1 says that the temporary file of an OS job no longer exists after the dispatch,
  whether the spooler call succeeds or throws. On the success path the handler unlinks
  the file (\<open>os_success_removes_temp_file\<close>); when \<^verbatim>\<open>pdfPrinter.print\<close> rejects,
  control passes to the \<^verbatim>\<open>catch\<close> block, which does not unlink. The job of the
  specification's first scenario, with a spooler that rejects: the response is the 500
  of the \<^verbatim>\<open>catch\<close> block and the file is still there, with the document in it.
\<close>

theorem C1_temp_file_left_after_failure:
  "fst (print_handler spooler_down_env os_inline_job empty_world)
     = Some (json_error 500 ''Printer not found'')
   \<and> trace (snd (print_handler spooler_down_env os_inline_job empty_world))
     = [Mkdir ''/srv/print/tmp'', WriteFile sample_path pdf_bytes, Print sample_path None]
   \<and> files (snd (print_handler spooler_down_env os_inline_job empty_world)) sample_path
     = Some pdf_bytes"
proof -
  have tp: "temp_path spooler_down_env = sample_path" "tmp_dir spooler_down_env = ''/srv/print/tmp''"
    using temp_path_fair by (simp_all add: spooler_down_env_def temp_path_def tmp_dir_def fair_env_def)
  have pr: "pdf_print spooler_down_env sample_path None = Some ''Printer not found''"
    by (simp add: spooler_down_env_def)
  show ?thesis
    by (simp add: os_handler_inline [OF os_inline_job_fields(1,2)] os_inline_job_fields(3)
        match_pdf_inline pdf_decoded tp pr write_temp_def writeFileSync_def mkdirSync_def
        emit_def empty_world_def Let_def)
qed

subsection \<open>C2: a missing required field\<close>

text \<open>
  C2: a job that lacks a field required by its declared mode is answered with status 400
  and the message naming the missing field, and the world is the one before the call: no
  file is created, no socket is opened, no fetch is issued.
\<close>

theorem C2_missing_field_no_io:
  "missing_required j \<Longrightarrow>
     print_handler e j w = (Some (json_error 400 (missing_field_message j)), w)"
  by (auto simp: missing_required_def missing_field_message_def no_document_def
      print_handler_def try_block_def os_mode_def os_file_def tcp_mode_def
      ipp_mode_def ipp_buffer_def Let_def
      split: if_splits option.splits)

theorem C2_missing_field_no_io_witness:
  "print_handler fair_env tcp_no_raw_job empty_world
     = (Some (json_error 400 ''raw data required for tcp mode''), empty_world)"
proof -
  have m: "missing_required tcp_no_raw_job"
    by (simp add: missing_required_def tcp_no_raw_job_def no_fields_def declared_mode_def)
  have "missing_field_message tcp_no_raw_job = ''raw data required for tcp mode''"
    by (simp add: missing_field_message_def tcp_no_raw_job_def no_fields_def declared_mode_def)
  with C2_missing_field_no_io [OF m, of fair_env empty_world] show ?thesis by simp
qed

subsection \<open>C3: the inline document of an OS or IPP job\<close>

text \<open>
  C3, as the code has it: an inline document is rejected (status 400, nothing done)
  exactly when it has no occurrence of \<^verbatim>\<open>base64,\<close> that is followed by no line
  terminator up to the end; neither a media type nor the \<^verbatim>\<open>;\<close> is asked for.
  Otherwise the text after the first such occurrence is decoded, and decoding cannot
  fail: the decoded bytes are the document, written to the temporary file in OS mode.
\<close>

theorem C3_inline_pattern:
  assumes "present (fileBase64 j) = Some s"
  shows "case match_base64 s of
           None \<Rightarrow>
             (\<forall>pre rest. s = pre @ ''base64,'' @ rest \<longrightarrow> \<not> dot_star rest)
             \<and> os_file e j w = (Inl (Return (json_error 400 ''Invalid fileBase64 payload'')), w)
             \<and> ipp_buffer e j w = (Inl (Return (json_error 400 ''Invalid fileBase64'')), w)
             \<and> (declared_mode j = ''os'' \<longrightarrow>
                   print_handler e j w = (Some (json_error 400 ''Invalid fileBase64 payload''), w))
             \<and> (declared_mode j = ''ipp'' \<and> present (printerIp j) \<noteq> None \<longrightarrow>
                   print_handler e j w = (Some (json_error 400 ''Invalid fileBase64''), w))
         | Some enc \<Rightarrow>
             (\<exists>pre. s = pre @ ''base64,'' @ enc) \<and> dot_star enc
             \<and> (\<forall>pre' rest'. s = pre' @ ''base64,'' @ rest' \<and> dot_star rest' \<longrightarrow>
                   length rest' \<le> length enc)
             \<and> os_file e j w = (Inr (temp_path e), snd (write_temp e (buffer_from_base64 enc) w))
             \<and> files (snd (os_file e j w)) (temp_path e) = Some (buffer_from_base64 enc)
             \<and> ipp_buffer e j w = (Inr (buffer_from_base64 enc), w)"
proof (cases "match_base64 s")
  case None
  have o: "declared_mode j = ''os'' \<longrightarrow>
      print_handler e j w = (Some (json_error 400 ''Invalid fileBase64 payload''), w)"
  proof
    assume m: "declared_mode j = ''os''"
    show "print_handler e j w = (Some (json_error 400 ''Invalid fileBase64 payload''), w)"
      by (simp add: os_handler_inline [OF m assms] None)
  qed
  have i: "declared_mode j = ''ipp'' \<and> present (printerIp j) \<noteq> None \<longrightarrow>
      print_handler e j w = (Some (json_error 400 ''Invalid fileBase64''), w)"
  proof
    assume "declared_mode j = ''ipp'' \<and> present (printerIp j) \<noteq> None"
    then obtain ip where m: "declared_mode j = ''ipp''" and ip: "present (printerIp j) = Some ip"
      by auto
    show "print_handler e j w = (Some (json_error 400 ''Invalid fileBase64''), w)"
      by (simp add: ipp_handler_inline [OF m assms] ip None)
  qed
  from None o i show ?thesis
    using match_base64_None [OF None]
    by (simp add: os_file_inline [OF assms] ipp_buffer_inline [OF assms])
next
  case (Some enc)
  have "\<forall>pre' rest'. s = pre' @ ''base64,'' @ rest' \<and> dot_star rest' \<longrightarrow>
      length rest' \<le> length enc"
    using match_base64_first [OF Some] by blast
  with Some show ?thesis
    using match_base64_Some [OF Some]
    by (simp add: os_file_inline [OF assms] ipp_buffer_inline [OF assms] write_temp_files)
qed

theorem C3_inline_pattern_witness:
  "ipp_buffer fair_env hello_job empty_world = (Inr hello_bytes, empty_world)
   \<and> print_handler fair_env no_marker_job empty_world
     = (Some (json_error 400 ''Invalid fileBase64 payload''), empty_world)"
proof -
  have f: "present (fileBase64 no_marker_job) = Some ''JVBERi0x''"
    and m: "declared_mode no_marker_job = ''os''"
    by (simp_all add: no_marker_job_def no_fields_def declared_mode_def)
  have n: "match_base64 ''JVBERi0x'' = None"
    by simp
  note t1 = C3_inline_pattern [OF hello_job_fields, of fair_env empty_world,
      unfolded match_hello option.case hello_decoded]
  note t2 = C3_inline_pattern [OF f, of fair_env empty_world, unfolded n option.case]
  from t1 t2 m show ?thesis by blast
qed

text \<open>
  C3 as stated fails in both of its conditions. An inline document that is only
  \<^verbatim>\<open>base64,JVBERi0x\<close>, without media type and without the \<^verbatim>\<open>;\<close>, is accepted and
  printed; and so is a document whose body \<^verbatim>\<open>!!!!\<close> is not base64: the decoder skips
  the four characters and the empty file goes to the spooler.
\<close>

theorem C3_counterexample:
  "fst (print_handler fair_env bare_marker_job empty_world)
     = Some (json_success ''os'' ''Sent to OS print spooler'')
   \<and> trace (snd (print_handler fair_env bare_marker_job empty_world))
     = [Mkdir ''/srv/print/tmp'', WriteFile sample_path pdf_bytes,
        Print sample_path None, Unlink sample_path]
   \<and> fst (print_handler fair_env bad_body_job empty_world)
     = Some (json_success ''os'' ''Sent to OS print spooler'')
   \<and> trace (snd (print_handler fair_env bad_body_job empty_world))
     = [Mkdir ''/srv/print/tmp'', WriteFile sample_path [],
        Print sample_path None, Unlink sample_path]"
proof -
  have m1: "match_base64 ''base64,JVBERi0x'' = Some ''JVBERi0x''"
    by (simp add: dot_star_def line_terminator_def)
  have m2: "match_base64 ''application/pdf;base64,!!!!'' = Some ''!!!!''"
    by (simp add: dot_star_def line_terminator_def)
  have p: "pdf_print fair_env sample_path None = None" "tmp_dir fair_env = ''/srv/print/tmp''"
    by (simp_all add: fair_env_def tmp_dir_def)
  have 1: "print_handler fair_env bare_marker_job empty_world
     = (Some (json_success ''os'' ''Sent to OS print spooler''),
        \<lparr>files = Map.empty,
         trace = [Mkdir ''/srv/print/tmp'', WriteFile sample_path pdf_bytes,
                  Print sample_path None, Unlink sample_path]\<rparr>)"
    by (simp add: os_handler [OF bare_marker_fields(1)] os_file_inline [OF bare_marker_fields(2)]
        bare_marker_fields(3) m1 pdf_decoded temp_path_fair p write_temp_def writeFileSync_def
        mkdirSync_def unlinkSync_def emit_def empty_world_def Let_def
        del: match_base64.simps)
  have 2: "print_handler fair_env bad_body_job empty_world
     = (Some (json_success ''os'' ''Sent to OS print spooler''),
        \<lparr>files = Map.empty,
         trace = [Mkdir ''/srv/print/tmp'', WriteFile sample_path [],
                  Print sample_path None, Unlink sample_path]\<rparr>)"
    by (simp add: os_handler [OF bad_body_fields(1)] os_file_inline [OF bad_body_fields(2)]
        bad_body_fields(3) m2 no_sextets temp_path_fair p write_temp_def writeFileSync_def
        mkdirSync_def unlinkSync_def emit_def empty_world_def Let_def
        del: match_base64.simps)
  show ?thesis by (simp add: 1 2)
qed

subsection \<open>C4: a fetch that is answered with an error status\<close>

text \<open>
  C4 says that in both modes the failure message carries the status description of the
  response, and that IPP attempts no exchange afterwards. The OS branch throws
  \<^verbatim>\<open>Failed to fetch file: \<close> followed by \<^verbatim>\<open>statusText\<close> (\<open>os_fetch_not_ok\<close>); the IPP
  branch throws the fixed text \<^verbatim>\<open>Failed to fetch fileUrl\<close> (\<open>ipp_fetch_not_ok\<close>). The
  third scenario of the specification, a 404 for an IPP job, next to the same URL in
  an OS job: no IPP exchange and no file in either, but the IPP message does not say
  which status came back.
\<close>

theorem C4_ipp_fetch_message:
  "fst (print_handler not_found_env ipp_url_job empty_world)
     = Some (json_error 500 ''Failed to fetch fileUrl'')
   \<and> trace (snd (print_handler not_found_env ipp_url_job empty_world))
     = [Fetch ''http://bad.example/x.pdf'']
   \<and> fst (print_handler not_found_env os_url_job empty_world)
     = Some (json_error 500 ''Failed to fetch file: Not Found'')
   \<and> trace (snd (print_handler not_found_env os_url_job empty_world))
     = [Fetch ''http://bad.example/x.pdf'']"
proof -
  have 1: "print_handler not_found_env ipp_url_job empty_world
     = (Some (json_error 500 ''Failed to fetch fileUrl''),
        emit (Fetch ''http://bad.example/x.pdf'') empty_world)"
    by (rule ipp_fetch_not_ok [OF ipp_url_job_fields fetch_not_found])
  have 2: "print_handler not_found_env os_url_job empty_world
     = (Some (json_error 500 ''Failed to fetch file: Not Found''),
        emit (Fetch ''http://bad.example/x.pdf'') empty_world)"
    using os_fetch_not_ok [OF os_url_job_fields fetch_not_found] by simp
  show ?thesis by (simp add: 1 2 emit_trace empty_world_fields)
qed

subsection \<open>C5: the raw field of a socket job\<close>

text \<open>
  C5, as the code has it: the raw field is decoded when it is a \<^verbatim>\<open>data:\<close> URI on one
  line, that is \<^verbatim>\<open>data:\<close>, any text, \<^verbatim>\<open>;base64,\<close> and the body (the text after the
  last \<^verbatim>\<open>;base64,\<close>); every other raw field is written as the UTF-8 bytes of the
  string itself. The only bytes the job writes to the socket are these, they are written
  when the connection is established, and the job is never answered with status 400.
\<close>

theorem C5_raw_decoding:
  assumes "declared_mode j = ''tcp''"
    and "present (printerIp j) = Some ip"
    and "present (raw j) = Some r"
  shows "(case match_data_base64 r of
            Some enc \<Rightarrow>
              (\<exists>mid. r = ''data:'' @ mid @ '';base64,'' @ enc) \<and> dot_star r
              \<and> (\<forall>mid' enc'. r = ''data:'' @ mid' @ '';base64,'' @ enc' \<longrightarrow>
                    length enc \<le> length enc')
              \<and> raw_bytes r = buffer_from_base64 enc
          | None \<Rightarrow>
              (\<forall>mid enc. r = ''data:'' @ mid @ '';base64,'' @ enc \<longrightarrow> \<not> dot_star r)
              \<and> raw_bytes r = utf8_encode r)
         \<and> (\<forall>b. SockWrite b \<in> set (trace (snd (print_handler e j w))) \<longrightarrow>
               SockWrite b \<in> set (trace w) \<or> b = raw_bytes r)
         \<and> (Connected \<in> set (sock_events e ip) \<longrightarrow>
               SockWrite (raw_bytes r) \<in> set (trace (snd (print_handler e j w))))
         \<and> (\<forall>resp. fst (print_handler e j w) = Some resp \<longrightarrow> status resp \<noteq> 400)"
proof -
  note h = tcp_handler [OF assms, of e w]
  have a: "case match_data_base64 r of
            Some enc \<Rightarrow>
              (\<exists>mid. r = ''data:'' @ mid @ '';base64,'' @ enc) \<and> dot_star r
              \<and> (\<forall>mid' enc'. r = ''data:'' @ mid' @ '';base64,'' @ enc' \<longrightarrow>
                    length enc \<le> length enc')
              \<and> raw_bytes r = buffer_from_base64 enc
          | None \<Rightarrow>
              (\<forall>mid enc. r = ''data:'' @ mid @ '';base64,'' @ enc \<longrightarrow> \<not> dot_star r)
              \<and> raw_bytes r = utf8_encode r"
  proof (cases "match_data_base64 r")
    case None
    then show ?thesis
      using match_data_base64_None [OF None] by (simp add: raw_bytes_def)
  next
    case (Some enc)
    have "\<forall>mid' enc'. r = ''data:'' @ mid' @ '';base64,'' @ enc' \<longrightarrow> length enc \<le> length enc'"
      using match_data_base64_last [OF Some] by blast
    with Some show ?thesis
      using match_data_base64_Some [OF Some] by (simp add: raw_bytes_def)
  qed
  have w: "\<And>ev. ev \<in> set (concat (map (writes_on (raw_bytes r)) (sock_events e ip)))
      \<Longrightarrow> ev = SockWrite (raw_bytes r) \<or> ev = SockEnd"
  proof -
    fix ev
    assume "ev \<in> set (concat (map (writes_on (raw_bytes r)) (sock_events e ip)))"
    then obtain x where "ev \<in> set (writes_on (raw_bytes r) x)" by auto
    then show "ev = SockWrite (raw_bytes r) \<or> ev = SockEnd" by (cases x) auto
  qed
  have b: "\<forall>b. SockWrite b \<in> set (trace (snd (print_handler e j w))) \<longrightarrow>
               SockWrite b \<in> set (trace w) \<or> b = raw_bytes r"
    using w by (auto simp: h socket_exchange_world)
  have c: "Connected \<in> set (sock_events e ip) \<longrightarrow>
               SockWrite (raw_bytes r) \<in> set (trace (snd (print_handler e j w)))"
  proof
    assume "Connected \<in> set (sock_events e ip)"
    then have "SockWrite (raw_bytes r) \<in> set (concat (map (writes_on (raw_bytes r)) (sock_events e ip)))"
      by (auto intro!: bexI [of _ Connected])
    then show "SockWrite (raw_bytes r) \<in> set (trace (snd (print_handler e j w)))"
      by (simp add: h socket_exchange_world)
  qed
  have d: "\<forall>resp. fst (print_handler e j w) = Some resp \<longrightarrow> status resp \<noteq> 400"
    by (auto simp: h json_success_def json_error_def split: promise.splits)
  from a b c d show ?thesis by blast
qed

theorem C5_raw_decoding_witness:
  "raw_bytes ''data:application/pdf;base64,JVBERi0x'' = pdf_bytes
   \<and> SockWrite pdf_bytes \<in> set (trace (snd (print_handler fair_env
         (tcp_job ''data:application/pdf;base64,JVBERi0x'') empty_world)))"
proof -
  have p: "present (raw (tcp_job ''data:application/pdf;base64,JVBERi0x''))
      = Some ''data:application/pdf;base64,JVBERi0x''"
    by (simp add: tcp_job_fields)
  have c: "Connected \<in> set (sock_events fair_env ''10.0.0.5'')" by (simp add: fair_env_def)
  note t = C5_raw_decoding [OF tcp_job_fields(1,2) p, of fair_env empty_world]
  from t have r: "raw_bytes ''data:application/pdf;base64,JVBERi0x'' = pdf_bytes"
    by (simp add: match_data_pdf pdf_decoded)
  from t c have "SockWrite (raw_bytes ''data:application/pdf;base64,JVBERi0x'')
      \<in> set (trace (snd (print_handler fair_env
         (tcp_job ''data:application/pdf;base64,JVBERi0x'') empty_world)))"
    by blast
  with r show ?thesis by simp
qed

text \<open>
  C5 as stated takes the pattern of the inline documents, a media type followed by
  \<^verbatim>\<open>;base64,\<close> and the body. The document of the first scenario has that form, and the
  OS and IPP branches decode it to the six bytes of \<^verbatim>\<open>%PDF-1\<close>; as a raw field it
  does not start with \<^verbatim>\<open>data:\<close>, and its 31 characters are sent as they are.
\<close>

theorem C5_counterexample:
  "match_base64 pdf_inline = Some ''JVBERi0x''
   \<and> buffer_from_base64 ''JVBERi0x'' = pdf_bytes
   \<and> trace (snd (print_handler fair_env (tcp_job pdf_inline) empty_world))
       = [SockConnect 9100 ''10.0.0.5'', SockWrite (utf8_encode pdf_inline), SockEnd]
   \<and> utf8_encode pdf_inline \<noteq> pdf_bytes"
proof -
  have m: "match_data_base64 pdf_inline = None"
    by (simp add: match_data_base64_def pdf_inline_def)
  have p: "present (raw (tcp_job pdf_inline)) = Some pdf_inline"
    by (simp add: tcp_job_fields pdf_inline_def)
  have t: "trace (snd (print_handler fair_env (tcp_job pdf_inline) empty_world))
       = [SockConnect 9100 ''10.0.0.5'', SockWrite (utf8_encode pdf_inline), SockEnd]"
    by (simp add: tcp_handler [OF tcp_job_fields(1,2) p] socket_exchange_world raw_bytes_def m
        fair_env_def empty_world_def)
  have l: "length (utf8_encode pdf_inline) = 31"
    by (simp add: utf8_encode_def utf8_of_char_def pdf_inline_def)
  have n: "utf8_encode pdf_inline \<noteq> pdf_bytes"
  proof
    assume "utf8_encode pdf_inline = pdf_bytes"
    then have "length (utf8_encode pdf_inline) = length pdf_bytes" by simp
    with l show False by (simp add: pdf_bytes_def)
  qed
  have b: "match_base64 pdf_inline = Some ''JVBERi0x''"
    by (simp add: pdf_inline_def dot_star_def line_terminator_def)
  from b pdf_decoded t n show ?thesis by simp
qed

subsection \<open>C6: round trip of an inline document\<close>

text \<open>
  C6: for every base64 string \<open>B\<close>, the inline document \<^verbatim>\<open>application/pdf;base64,\<close>
  followed by \<open>B\<close> resolves, in IPP mode and in OS mode, to exactly the decoded bytes
  of \<open>B\<close> (in OS mode they are the content of the temporary file), and encoding these
  bytes gives \<open>B\<close> again. With \<open>base64_decode_encode\<close> the decoded bytes are the only
  bytes whose encoding is \<open>B\<close>.
\<close>

theorem C6_inline_round_trip:
  assumes "is_base64 B"
    and "fileBase64 j = Some (''application/pdf;base64,'' @ B)"
  shows "ipp_buffer e j w = (Inr (buffer_from_base64 B), w)
         \<and> os_file e j w = (Inr (temp_path e), snd (write_temp e (buffer_from_base64 B) w))
         \<and> files (snd (os_file e j w)) (temp_path e) = Some (buffer_from_base64 B)
         \<and> base64_encode (buffer_from_base64 B) = B"
proof -
  have p: "present (fileBase64 j) = Some (''application/pdf;base64,'' @ B)"
    by (simp add: assms(2))
  have m: "match_base64 (''application/pdf;base64,'' @ B) = Some B"
    by (rule match_base64_pdf_prefix [OF is_base64_dot_star [OF assms(1)]])
  have o: "os_file e j w = (Inr (temp_path e), snd (write_temp e (buffer_from_base64 B) w))"
    by (simp only: os_file_inline [OF p] m option.case)
  have i: "ipp_buffer e j w = (Inr (buffer_from_base64 B), w)"
    by (simp only: ipp_buffer_inline [OF p] m option.case)
  have f: "files (snd (os_file e j w)) (temp_path e) = Some (buffer_from_base64 B)"
    by (simp add: o write_temp_def writeFileSync_def mkdirSync_def emit_def Let_def)
  from i o f is_base64_round_trip [OF assms(1)] show ?thesis by blast
qed

theorem C6_inline_round_trip_witness:
  "ipp_buffer fair_env os_inline_job empty_world = (Inr pdf_bytes, empty_world)
   \<and> files (snd (os_file fair_env os_inline_job empty_world)) sample_path = Some pdf_bytes
   \<and> base64_encode pdf_bytes = ''JVBERi0x''"
proof -
  have f: "fileBase64 os_inline_job = Some (''application/pdf;base64,'' @ ''JVBERi0x'')"
    by (simp add: os_inline_job_def pdf_inline_def)
  note t = C6_inline_round_trip [OF is_base64_sample f, of fair_env empty_world,
      unfolded pdf_decoded temp_path_fair]
  from t show ?thesis by blast
qed

subsection \<open>C7: the raw socket exchange\<close>

text \<open>
  C7: a socket job with printer address and raw payload opens one connection, to the
  printer's address on port 9100; once connected it writes the whole buffer and ends its
  side; it answers with success exactly when the socket is connected and then closed
  without an error; an error of the socket, before or after the connect, becomes the
  response of status 500 with the error's message; and while neither close nor error
  comes, there is no response. Nothing is written to the file system.
\<close>

theorem C7_raw_socket_exchange:
  assumes "declared_mode j = ''tcp''"
    and "present (printerIp j) = Some ip"
    and "present (raw j) = Some r"
    and "socket_lifecycle (sock_events e ip)"
  shows "trace (snd (print_handler e j w)) =
           trace w @ SockConnect 9100 ip #
             (if Connected \<in> set (sock_events e ip) then [SockWrite (raw_bytes r), SockEnd] else [])
         \<and> files (snd (print_handler e j w)) = files w
         \<and> ((fst (print_handler e j w) = Some (json_success ''tcp'' ''Raw TCP sent to printer''))
              = (sock_events e ip = [Connected, Closed]))
         \<and> (\<forall>m. SockError m \<in> set (sock_events e ip) \<longrightarrow>
               fst (print_handler e j w) = Some (json_error 500 m))
         \<and> ((fst (print_handler e j w) = None)
              = (sock_events e ip = [] \<or> sock_events e ip = [Connected]))"
proof -
  note h = tcp_handler [OF assms(1-3), of e w]
  from socket_lifecycle_cases [OF assms(4)]
  consider "sock_events e ip = []" | "sock_events e ip = [Connected]"
    | "sock_events e ip = [Connected, Closed]"
    | m where "sock_events e ip = [Connected, SockError m]"
    | m where "sock_events e ip = [Connected, SockError m, Closed]"
    | m where "sock_events e ip = [SockError m]"
    | m where "sock_events e ip = [SockError m, Closed]"
    by blast
  then show ?thesis
  proof cases
    case 1
    then show ?thesis
      by (simp add: h socket_exchange_def emit_def settle_def)
  next
    case 2
    then show ?thesis
      by (simp add: h socket_exchange_def emit_def settle_def)
  next
    case 3
    then show ?thesis
      by (simp add: h socket_exchange_def emit_def settle_def)
  next
    case 4
    then show ?thesis
      by (simp add: h socket_exchange_def emit_def settle_def json_error_def json_success_def)
  next
    case 5
    then show ?thesis
      by (simp add: h socket_exchange_def emit_def settle_def json_error_def json_success_def)
  next
    case 6
    then show ?thesis
      by (simp add: h socket_exchange_def emit_def settle_def json_error_def json_success_def)
  next
    case 7
    then show ?thesis
      by (simp add: h socket_exchange_def emit_def settle_def json_error_def json_success_def)
  qed
qed

theorem C7_raw_socket_exchange_witness:
  "trace (snd (print_handler fair_env (tcp_job ''TEST'') empty_world))
     = [SockConnect 9100 ''10.0.0.5'', SockWrite [0x54, 0x45, 0x53, 0x54], SockEnd]
   \<and> fst (print_handler fair_env (tcp_job ''TEST'') empty_world)
     = Some (json_success ''tcp'' ''Raw TCP sent to printer'')
   \<and> fst (print_handler reset_env (tcp_job ''TEST'') empty_world)
     = Some (json_error 500 ''read ECONNRESET'')"
proof -
  have p: "present (raw (tcp_job ''TEST'')) = Some ''TEST''" by (simp add: tcp_job_fields)
  have l1: "socket_lifecycle (sock_events fair_env ''10.0.0.5'')"
    by (simp add: fair_env_def)
  have l2: "socket_lifecycle (sock_events reset_env ''10.0.0.5'')"
    by (simp add: reset_env_def fair_env_def)
  from C7_raw_socket_exchange [OF tcp_job_fields(1,2) p l1, of empty_world]
    C7_raw_socket_exchange [OF tcp_job_fields(1,2) p l2, of empty_world]
  show ?thesis
    by (simp add: raw_bytes_TEST fair_env_def reset_env_def empty_world_def)
qed

subsection \<open>C8: the name of the temporary file\<close>

text \<open>
  C8 says that two OS dispatches never use the same temporary file. The name is
  \<^verbatim>\<open>print-\<close>, the clock reading in milliseconds, \<^verbatim>\<open>.pdf\<close>: it depends on nothing
  else (\<open>temp_path_same_clock\<close>). Two different jobs whose handlers run in the same
  millisecond, the second starting while the first awaits the spooler: both get the same
  path, and the second document replaces the first in the file.
\<close>

theorem C8_same_millisecond_same_file:
  "os_inline_job \<noteq> hello_job
   \<and> fst (os_file fair_env os_inline_job empty_world) = Inr sample_path
   \<and> fst (os_file fair_env hello_job (snd (os_file fair_env os_inline_job empty_world)))
       = Inr sample_path
   \<and> files (snd (os_file fair_env os_inline_job empty_world)) sample_path = Some pdf_bytes
   \<and> files (snd (os_file fair_env hello_job (snd (os_file fair_env os_inline_job empty_world))))
       sample_path = Some hello_bytes"
proof -
  have d: "os_inline_job \<noteq> hello_job"
  proof
    assume "os_inline_job = hello_job"
    then have "fileBase64 os_inline_job = fileBase64 hello_job" by simp
    then show False by (simp add: os_inline_job_def hello_job_def no_fields_def pdf_inline_def)
  qed
  have 1: "os_file fair_env os_inline_job w = (Inr sample_path, snd (write_temp fair_env pdf_bytes w))" for w
    by (simp only: os_file_inline [OF os_inline_job_fields(2)] match_pdf_inline option.case
        pdf_decoded temp_path_fair)
  have 2: "os_file fair_env hello_job w = (Inr sample_path, snd (write_temp fair_env hello_bytes w))" for w
    by (simp only: os_file_inline [OF hello_job_fields] match_hello option.case
        hello_decoded temp_path_fair)
  show ?thesis
    using d by (simp add: 1 2 write_temp_files temp_path_fair)
qed

subsection \<open>C9: both document sources present\<close>

text \<open>
  C9: when an OS or IPP job carries both \<^verbatim>\<open>fileBase64\<close> and \<^verbatim>\<open>fileUrl\<close>, the result
  is the one of the job without \<^verbatim>\<open>fileUrl\<close>, whatever a fetch would have returned; the
  call adds no fetch to the log; and the document is the decoding of \<^verbatim>\<open>fileBase64\<close>
  (or the job is rejected because of \<^verbatim>\<open>fileBase64\<close>).
\<close>

theorem C9_inline_takes_precedence:
  assumes "present (fileBase64 j) = Some b"
    and "present (fileUrl j) = Some u"
    and "declared_mode j = ''os'' \<or> declared_mode j = ''ipp''"
  shows "print_handler e j w = print_handler (e\<lparr>fetch := f\<rparr>) (j\<lparr>fileUrl := None\<rparr>) w
         \<and> (\<forall>x. Fetch x \<in> set (trace (snd (print_handler e j w))) \<longrightarrow> Fetch x \<in> set (trace w))
         \<and> os_file e j w =
             (case match_base64 b of
                None \<Rightarrow> (Inl (Return (json_error 400 ''Invalid fileBase64 payload'')), w)
              | Some enc \<Rightarrow> (Inr (temp_path e), snd (write_temp e (buffer_from_base64 enc) w)))
         \<and> ipp_buffer e j w =
             (case match_base64 b of
                None \<Rightarrow> (Inl (Return (json_error 400 ''Invalid fileBase64'')), w)
              | Some enc \<Rightarrow> (Inr (buffer_from_base64 enc), w))"
proof -
  have p': "present (fileBase64 (j\<lparr>fileUrl := None\<rparr>)) = Some b" using assms(1) by simp
  have tp: "temp_path (e\<lparr>fetch := f\<rparr>) = temp_path e"
    by (simp add: temp_path_def tmp_dir_def)
  have wt: "\<And>buffer. write_temp (e\<lparr>fetch := f\<rparr>) buffer w = write_temp e buffer w"
    by (simp add: write_temp_def temp_path_def tmp_dir_def)
  from assms(3) have a: "print_handler e j w = print_handler (e\<lparr>fetch := f\<rparr>) (j\<lparr>fileUrl := None\<rparr>) w"
  proof
    assume m: "declared_mode j = ''os''"
    then have m': "declared_mode (j\<lparr>fileUrl := None\<rparr>) = ''os''" by (simp add: declared_mode_def)
    show ?thesis
      by (simp add: os_handler_inline [OF m assms(1)] os_handler_inline [OF m' p'] tp wt Let_def
          split: option.splits)
  next
    assume m: "declared_mode j = ''ipp''"
    then have m': "declared_mode (j\<lparr>fileUrl := None\<rparr>) = ''ipp''" by (simp add: declared_mode_def)
    show ?thesis
      by (simp add: ipp_handler_inline [OF m assms(1)] ipp_handler_inline [OF m' p']
          split: option.splits)
  qed
  from assms(3) have b: "\<forall>x. Fetch x \<in> set (trace (snd (print_handler e j w))) \<longrightarrow> Fetch x \<in> set (trace w)"
  proof
    assume m: "declared_mode j = ''os''"
    show ?thesis
      by (auto simp: os_handler_inline [OF m assms(1)] Let_def write_temp_trace unlinkSync_trace
          emit_trace split: option.splits)
  next
    assume m: "declared_mode j = ''ipp''"
    show ?thesis
      by (auto simp: ipp_handler_inline [OF m assms(1)] emit_trace split: option.splits)
  qed
  from a b os_file_inline [OF assms(1), of e w] ipp_buffer_inline [OF assms(1), of e w]
  show ?thesis by blast
qed

theorem C9_inline_takes_precedence_witness:
  "print_handler not_found_env both_sources_job empty_world
     = print_handler fair_env (both_sources_job\<lparr>fileUrl := None\<rparr>) empty_world
   \<and> ipp_buffer not_found_env both_sources_job empty_world = (Inr pdf_bytes, empty_world)"
proof -
  have 1: "present (fileBase64 both_sources_job) = Some pdf_inline"
    by (simp add: both_sources_job_def no_fields_def pdf_inline_def)
  have 2: "present (fileUrl both_sources_job) = Some ''http://bad.example/x.pdf''"
    by (simp add: both_sources_job_def no_fields_def)
  have 3: "declared_mode both_sources_job = ''os'' \<or> declared_mode both_sources_job = ''ipp''"
    by (simp add: both_sources_job_def no_fields_def declared_mode_def)
  have 4: "not_found_env\<lparr>fetch := fetch fair_env\<rparr> = fair_env"
    by (simp add: not_found_env_def fair_env_def)
  note t = C9_inline_takes_precedence [OF 1 2 3, of not_found_env empty_world "fetch fair_env",
      unfolded 4 match_pdf_inline option.case pdf_decoded]
  from t show ?thesis by blast
qed

subsection \<open>C10: no temporary file when the fetch fails\<close>

text \<open>
  C10: when the fetch of an OS job's \<^verbatim>\<open>fileUrl\<close> is rejected or is answered with a
  status that is not ok, the handler answers with status 500 and the only effect is the
  fetch: no directory and no file is created. In every run the fetch comes first, and a
  file is written only with the body of a response that was ok.
\<close>

theorem C10_no_temp_file_on_failed_fetch:
  assumes "declared_mode j = ''os''"
    and "present (fileBase64 j) = None"
    and "present (fileUrl j) = Some u"
  shows "((\<exists>m. fetch e u = FetchRejects m) \<or> (\<exists>st b. fetch e u = FetchResponse False st b) \<longrightarrow>
            print_handler e j w =
              (Some (json_error 500
                 (case fetch e u of
                    FetchRejects m \<Rightarrow> m
                  | FetchResponse ok st b \<Rightarrow> ''Failed to fetch file: '' @ st)),
               emit (Fetch u) w))
         \<and> (\<exists>rest. trace (snd (print_handler e j w)) = trace w @ Fetch u # rest)
         \<and> (\<forall>p c. WriteFile p c \<in> set (trace (snd (print_handler e j w))) \<longrightarrow>
               WriteFile p c \<in> set (trace w) \<or> (\<exists>st. fetch e u = FetchResponse True st (Body c)))"
proof -
  note h = os_handler_url [OF assms, of e w]
  have a: "(\<exists>m. fetch e u = FetchRejects m) \<or> (\<exists>st b. fetch e u = FetchResponse False st b) \<longrightarrow>
            print_handler e j w =
              (Some (json_error 500
                 (case fetch e u of
                    FetchRejects m \<Rightarrow> m
                  | FetchResponse ok st b \<Rightarrow> ''Failed to fetch file: '' @ st)),
               emit (Fetch u) w)"
    by (auto simp: h)
  have b: "\<exists>rest. trace (snd (print_handler e j w)) = trace w @ Fetch u # rest"
    by (simp add: h Let_def write_temp_trace unlinkSync_trace emit_trace
        split: fetch_outcome.splits body.splits option.splits)
  have c: "\<forall>p c. WriteFile p c \<in> set (trace (snd (print_handler e j w))) \<longrightarrow>
               WriteFile p c \<in> set (trace w) \<or> (\<exists>st. fetch e u = FetchResponse True st (Body c))"
    by (auto simp: h Let_def write_temp_trace unlinkSync_trace emit_trace
        split: fetch_outcome.splits body.splits option.splits if_splits)
  from a b c show ?thesis by blast
qed

theorem C10_no_temp_file_on_failed_fetch_witness:
  "print_handler not_found_env os_url_job empty_world
     = (Some (json_error 500 ''Failed to fetch file: Not Found''),
        emit (Fetch ''http://bad.example/x.pdf'') empty_world)"
proof -
  note t = C10_no_temp_file_on_failed_fetch [OF os_url_job_fields, of not_found_env empty_world,
      unfolded fetch_not_found fetch_outcome.case]
  from t show ?thesis by simp
qed

end
